theory Spec2Isabelle
  imports Complex_Main "HOL-Library.Multiset" "HOL-Library.AList"
begin

section \<open>Infrastructure analyzer: classifier and proximity curve\<close>

text \<open>
  Embedding of \<^verbatim>\<open>backend/app/services/infrastructure_analyzer.py\<close>.
  Python dictionaries whose iteration order is observable are association lists in
  insertion order; Python \<^verbatim>\<open>float\<close> values are idealised as \<^typ>\<open>real\<close>, so the
  results below are about the arithmetic the code writes down, not about IEEE rounding.
\<close>

type_synonym category = string

definition infrastructure_weights :: "(category \<times> real) list" where
  "infrastructure_weights =
     [(''healthcare'', 0.25),
      (''education'', 0.20),
      (''transportation'', 0.15),
      (''shopping'', 0.15),
      (''services'', 0.10),
      (''recreation'', 0.10),
      (''dining'', 0.05)]"

definition place_type_mapping :: "(category \<times> string list) list" where
  "place_type_mapping =
     [(''healthcare'',
         [''hospital'', ''pharmacy'', ''doctor'', ''dentist'',
          ''veterinary_care'', ''physiotherapist'']),
      (''education'',
         [''school'', ''university'', ''library'', ''secondary_school'',
          ''primary_school'', ''kindergarten'']),
      (''transportation'',
         [''bus_station'', ''subway_station'', ''train_station'',
          ''transit_station'', ''airport'']),
      (''shopping'',
         [''supermarket'', ''grocery_or_supermarket'', ''shopping_mall'',
          ''clothing_store'', ''electronics_store'', ''hardware_store'']),
      (''services'',
         [''bank'', ''post_office'', ''local_government_office'',
          ''police'', ''fire_station'', ''courthouse'']),
      (''recreation'',
         [''park'', ''gym'', ''amusement_park'', ''zoo'', ''museum'',
          ''movie_theater'', ''night_club'', ''stadium'']),
      (''dining'',
         [''restaurant'', ''meal_takeaway'', ''cafe'', ''bar'',
          ''bakery'', ''meal_delivery''])]"

text \<open>
  \<^verbatim>\<open>categorize_place\<close>: the outer loop runs over the mapping's items in insertion
  order, the inner loop over the place's types; the first hit returns the category.
\<close>

fun categorize_in :: "(category \<times> string list) list \<Rightarrow> string list \<Rightarrow> category option" where
  "categorize_in [] place_types = None"
| "categorize_in ((category, types) # rest) place_types =
     (if list_ex (\<lambda>place_type. place_type \<in> set types) place_types
      then Some category
      else categorize_in rest place_types)"

definition categorize_place :: "string list \<Rightarrow> category option" where
  "categorize_place place_types = categorize_in place_type_mapping place_types"

definition ideal_distances :: "(category \<times> real) list" where
  "ideal_distances =
     [(''healthcare'', 1000),
      (''education'', 800),
      (''transportation'', 500),
      (''shopping'', 600),
      (''services'', 1200),
      (''recreation'', 1500),
      (''dining'', 400)]"

text \<open>\<^verbatim>\<open>ideal_distances.get(category, 1000)\<close>\<close>

definition ideal_dist_of :: "category \<Rightarrow> real" where
  "ideal_dist_of category =
     (case map_of ideal_distances category of Some d \<Rightarrow> d | None \<Rightarrow> 1000)"

definition calculate_proximity_score :: "real \<Rightarrow> category \<Rightarrow> real" where
  "calculate_proximity_score distance category =
     (let ideal_dist = ideal_dist_of category in
      if distance \<le> ideal_dist then 10
      else if distance \<le> ideal_dist * 2 then
        10 - (5 * (distance - ideal_dist) / ideal_dist)
      else if distance \<le> ideal_dist * 4 then
        5 - (3 * (distance - ideal_dist * 2) / (ideal_dist * 2))
      else max 0 (2 - (distance / (ideal_dist * 10))))"

text \<open>
  The last piece of the curve as the specification words it:
  \<open>max(0, 2 - (distance - 4 ideal) / (10 ideal))\<close>.
\<close>

definition spec_far_score :: "real \<Rightarrow> real \<Rightarrow> real" where
  "spec_far_score distance ideal = max 0 (2 - (distance - 4 * ideal) / (10 * ideal))"


section \<open>Infrastructure analyzer: distances and per-category aggregation\<close>

text \<open>\<^verbatim>\<open>math.radians\<close> and \<^verbatim>\<open>math.atan2\<close> on real numbers.\<close>

definition radians :: "real \<Rightarrow> real" where
  "radians x = x * pi / 180"

definition atan2 :: "real \<Rightarrow> real \<Rightarrow> real" where
  "atan2 y x =
     (if 0 < x then arctan (y / x)
      else if x < 0 \<and> 0 \<le> y then arctan (y / x) + pi
      else if x < 0 then arctan (y / x) - pi
      else if 0 < y then pi / 2
      else if y < 0 then - pi / 2
      else 0)"

definition calculate_distance :: "real \<Rightarrow> real \<Rightarrow> real \<Rightarrow> real \<Rightarrow> real" where
  "calculate_distance lat1 lon1 lat2 lon2 =
     (let R = 6371000;
          lat1_rad = radians lat1;
          lat2_rad = radians lat2;
          delta_lat = radians (lat2 - lat1);
          delta_lon = radians (lon2 - lon1);
          a = (sin (delta_lat / 2))\<^sup>2
              + cos lat1_rad * cos lat2_rad * (sin (delta_lon / 2))\<^sup>2;
          c = 2 * atan2 (sqrt a) (sqrt (1 - a))
      in R * c)"

text \<open>
  The exceptions that the statements below are about, by the name of their Python
  class.
\<close>

datatype py_exception = AsyncioTimeoutError | JSONDecodeError | AttributeError | TypeError

text \<open>
  A place as the places provider returns it. A field that the code reads with
  \<^verbatim>\<open>.get(key, default)\<close> is optional; \<open>pl_lat\<close> and \<open>pl_lng\<close> stand for
  \<^verbatim>\<open>place['geometry']['location']['lat']\<close> and \<^verbatim>\<open>['lng']\<close>. A coordinate is a
  number, or a JSON value of another kind (a string, say), on which the arithmetic
  of \<^verbatim>\<open>calculate_distance\<close> raises \<^verbatim>\<open>TypeError\<close>.
\<close>

datatype coord = Number real | NotANumber

record place =
  pl_place_id :: "string option"
  pl_name :: "string option"
  pl_formatted_address :: "string option"
  pl_types :: "string list option"
  pl_lat :: "coord option"
  pl_lng :: "coord option"
  pl_rating :: "real option"
  pl_vicinity :: "string option"

text \<open>
  The dictionary appended to \<^verbatim>\<open>category_scores[category]\<close>, with keys
  \<^verbatim>\<open>'name'\<close>, \<^verbatim>\<open>'distance'\<close>, \<^verbatim>\<open>'score'\<close> and \<^verbatim>\<open>'rating'\<close>.
\<close>

record scored_place =
  p_name :: string
  p_distance :: real
  p_score :: real
  p_rating :: real

text \<open>
  One iteration of the loop over \<^verbatim>\<open>nearby_places\<close>: the category and the entry
  appended to it, nothing for a place no category recognises, or the exception that
  the iteration raises.
\<close>

definition score_place ::
  "real \<Rightarrow> real \<Rightarrow> place \<Rightarrow> py_exception + (category \<times> scored_place) option" where
  "score_place latitude longitude pl =
     (let place_types = (case pl_types pl of Some ts \<Rightarrow> ts | None \<Rightarrow> [])
      in case categorize_place place_types of
           None \<Rightarrow> Inr None
         | Some category \<Rightarrow>
             (if category = [] then Inr None
              else
                let place_lat = (case pl_lat pl of Some v \<Rightarrow> v | None \<Rightarrow> Number latitude);
                    place_lng = (case pl_lng pl of Some v \<Rightarrow> v | None \<Rightarrow> Number longitude)
                in (case (place_lat, place_lng) of
                      (Number lat2, Number lon2) \<Rightarrow>
                        (let distance = calculate_distance latitude longitude lat2 lon2;
                             proximity_score = calculate_proximity_score distance category
                         in Inr (Some (category,
                              \<lparr>p_name = (case pl_name pl of Some n \<Rightarrow> n | None \<Rightarrow> ''Unknown''),
                               p_distance = distance,
                               p_score = proximity_score,
                               p_rating = (case pl_rating pl of Some r \<Rightarrow> r | None \<Rightarrow> 0)\<rparr>)))
                    | (Number lat2, NotANumber) \<Rightarrow> Inl TypeError
                    | (NotANumber, lon2) \<Rightarrow> Inl TypeError)))"

text \<open>\<^verbatim>\<open>category_scores[category].append(entry)\<close> on the dictionary of lists.\<close>

definition append_score ::
  "category \<Rightarrow> scored_place \<Rightarrow> (category \<times> scored_place list) list
     \<Rightarrow> (category \<times> scored_place list) list" where
  "append_score category e category_scores =
     map (\<lambda>(c, places). if c = category then (c, places @ [e]) else (c, places))
       category_scores"

text \<open>The loop over \<^verbatim>\<open>nearby_places\<close>; it stops at the first iteration that raises.\<close>

fun collect_scores ::
  "real \<Rightarrow> real \<Rightarrow> place list \<Rightarrow> (category \<times> scored_place list) list
     \<Rightarrow> py_exception + (category \<times> scored_place list) list" where
  "collect_scores latitude longitude [] category_scores = Inr category_scores"
| "collect_scores latitude longitude (pl # nearby_places) category_scores =
     (case score_place latitude longitude pl of
        Inl e \<Rightarrow> Inl e
      | Inr None \<Rightarrow> collect_scores latitude longitude nearby_places category_scores
      | Inr (Some (category, e)) \<Rightarrow>
          collect_scores latitude longitude nearby_places
            (append_score category e category_scores))"

definition category_scores_of ::
  "real \<Rightarrow> real \<Rightarrow> place list \<Rightarrow> py_exception + (category \<times> scored_place list) list" where
  "category_scores_of latitude longitude nearby_places =
     collect_scores latitude longitude nearby_places
       (map (\<lambda>(category, w). (category, [])) infrastructure_weights)"

text \<open>\<^verbatim>\<open>'average_distance'\<close> is a float or \<^verbatim>\<open>float('inf')\<close>.\<close>

datatype avg_distance = Finite real | Infinite

record category_detail =
  d_score :: real
  d_count :: nat
  d_top_places :: "scored_place list"
  d_average_distance :: avg_distance

text \<open>
  The body of the loop over \<^verbatim>\<open>category_scores.items()\<close>: the final score of one
  category and its entry of \<^verbatim>\<open>detailed_analysis\<close>. Python's \<^verbatim>\<open>sorted\<close> is stable,
  as \<^const>\<open>sort_key\<close> is.
\<close>

definition category_analysis :: "scored_place list \<Rightarrow> real \<times> category_detail" where
  "category_analysis places =
     (if places \<noteq> [] then
        let top_places = take 5 (sort_key p_distance places);
            total_score = sum_list (map p_score top_places);
            avg_score = total_score / real (length top_places);
            availability_bonus = min 1 (real (length places) / 3) * 0.5;
            final_score = min 10 (avg_score + availability_bonus)
        in (final_score,
            \<lparr>d_score = final_score,
             d_count = length places,
             d_top_places = top_places,
             d_average_distance =
               Finite (sum_list (map p_distance top_places) / real (length top_places))\<rparr>)
      else
        (0, \<lparr>d_score = 0, d_count = 0, d_top_places = [], d_average_distance = Infinite\<rparr>))"

text \<open>
  What \<^verbatim>\<open>analyze_infrastructure\<close> returns, as far as the categories go: the keys
  \<^verbatim>\<open>category_scores\<close>, \<^verbatim>\<open>detailed_analysis\<close> (absent from the dictionary of the
  exception handler), \<^verbatim>\<open>total_places_analyzed\<close> and \<^verbatim>\<open>note\<close> (present only there).
  The location, the rounded overall score and the insights are left out; no statement
  below is about them.
\<close>

record analysis =
  an_category_scores :: "(category \<times> real) list"
  an_detailed_analysis :: "(category \<times> category_detail) list option"
  an_total_places_analyzed :: nat
  an_note :: "string option"

text \<open>The dictionary of the exception handler (\<^verbatim>\<open># Return mock data on error\<close>).\<close>

definition mock_analysis :: analysis where
  "mock_analysis =
     \<lparr>an_category_scores =
        [(''healthcare'', 8.0), (''education'', 7.5), (''transportation'', 6.8),
         (''shopping'', 8.2), (''services'', 7.0), (''recreation'', 7.8),
         (''dining'', 8.5)],
      an_detailed_analysis = None,
      an_total_places_analyzed = 0,
      an_note = Some (''Dados simulados - API n'' @ [CHR 0xC3, CHR 0xA3] @ ''o dispon'' @ [CHR 0xC3, CHR 0xAD] @ ''vel'')\<rparr>"

text \<open>
  \<open>analyze_infrastructure\<close>: \<open>nearby\<close> is what the awaited call of the places
  provider gives, a list of places or the exception it raises. An exception of the
  call or of the loop ends in the handler.
\<close>

definition analyze_infrastructure ::
  "real \<Rightarrow> real \<Rightarrow> py_exception + place list \<Rightarrow> analysis" where
  "analyze_infrastructure latitude longitude nearby =
     (case nearby of
        Inl e \<Rightarrow> mock_analysis
      | Inr nearby_places \<Rightarrow>
          (case category_scores_of latitude longitude nearby_places of
             Inl e \<Rightarrow> mock_analysis
           | Inr category_scores \<Rightarrow>
               \<lparr>an_category_scores =
                  map (\<lambda>(category, places). (category, fst (category_analysis places)))
                    category_scores,
                an_detailed_analysis =
                  Some (map (\<lambda>(category, places). (category, snd (category_analysis places)))
                          category_scores),
                an_total_places_analyzed =
                  sum_list (map (\<lambda>(category, places). length places) category_scores),
                an_note = None\<rparr>))"

text \<open>
  The base score of a category as the specification words it: the average proximity
  score of all the points classified into the category.
\<close>

definition spec_base_score :: "scored_place list \<Rightarrow> real" where
  "spec_base_score places = sum_list (map p_score places) / real (length places)"

definition spec_category_score :: "scored_place list \<Rightarrow> real" where
  "spec_category_score places =
     min 10 (spec_base_score places + min 1 (real (length places) / 3) * 0.5)"

text \<open>
  All the points of a request that are classified into one category, in the order of
  the request.
\<close>

definition classified_points :: "category \<Rightarrow> real \<Rightarrow> real \<Rightarrow> place list \<Rightarrow> scored_place list" where
  "classified_points category latitude longitude nearby_places =
     List.map_filter
       (\<lambda>pl. case score_place latitude longitude pl of
                Inl x \<Rightarrow> None
              | Inr None \<Rightarrow> None
              | Inr (Some (c, e)) \<Rightarrow> if c = category then Some e else None)
       nearby_places"

text \<open>
  A request of the scenario around \<open>(-23.5505, -46.6333)\<close>: eight places on the
  meridian of the centre. A hospital about 33 km to the north comes first, then five
  hospitals between about 110 m and 560 m, a school and a place of no category.
\<close>

definition place_at :: "string \<Rightarrow> string list \<Rightarrow> real \<Rightarrow> place" where
  "place_at n ts lat =
     \<lparr>pl_place_id = None, pl_name = Some n, pl_formatted_address = None,
      pl_types = Some ts, pl_lat = Some (Number lat), pl_lng = Some (Number (-46.6333)),
      pl_rating = None, pl_vicinity = None\<rparr>"

definition scenario_places :: "place list" where
  "scenario_places =
     [place_at ''H far'' [''hospital''] (-23.2505),
      place_at ''H5'' [''hospital'', ''health''] (-23.5455),
      place_at ''H1'' [''pharmacy''] (-23.5495),
      place_at ''H4'' [''doctor''] (-23.5465),
      place_at ''H2'' [''dentist''] (-23.5485),
      place_at ''H3'' [''hospital''] (-23.5475),
      place_at ''School'' [''school''] (-23.5495),
      place_at ''Office'' [''establishment''] (-23.5495)]"

text \<open>
  The entry of the first loop for a place of that request, \<open>delta\<close> degrees of latitude
  from the centre.
\<close>

definition scenario_entry :: "string \<Rightarrow> real \<Rightarrow> real \<Rightarrow> scored_place" where
  "scenario_entry n delta s =
     \<lparr>p_name = n, p_distance = 6371000 * radians delta, p_score = s, p_rating = 0\<rparr>"

section \<open>Cache service\<close>

text \<open>
  Embedding of \<^verbatim>\<open>backend/app/services/cache_service.py\<close>. A cached value is a JSON
  object; \<^verbatim>\<open>json.dumps\<close> followed by \<^verbatim>\<open>json.loads\<close> is taken to give the object
  back, so the store holds the object itself. A dictionary is an association list in
  insertion order: \<^const>\<open>AList.update\<close> replaces the value of a key that is present
  and appends a key that is not, as assignment to a Python dictionary does.
\<close>

datatype json =
    JNull
  | JBool bool
  | JInt int
  | JFloat real
  | JStr string
  | JArr "json list"
  | JTuple "json list"
  | JObj "(string \<times> json) list"
  | JUnserializable

type_synonym payload = "(string \<times> json) list"

text \<open>
  A value of a Python dictionary is a JSON value, a tuple (which \<^verbatim>\<open>json.dumps\<close>
  writes as an array) or an object of a class that \<^verbatim>\<open>json.dumps\<close> refuses with
  \<^verbatim>\<open>TypeError\<close> (\<open>JUnserializable\<close>: a \<^verbatim>\<open>datetime\<close>, a \<^verbatim>\<open>set\<close>). \<open>serializable\<close>
  tells whether \<^verbatim>\<open>json.dumps\<close> accepts a value, \<open>loads_dumps\<close> is what
  \<^verbatim>\<open>json.loads\<close> reads back from its output.
\<close>

fun serializable :: "json \<Rightarrow> bool" where
  "serializable (JArr xs) = list_all serializable xs"
| "serializable (JTuple xs) = list_all serializable xs"
| "serializable (JObj kvs) = list_all serializable (map snd kvs)"
| "serializable JUnserializable = False"
| "serializable JNull = True"
| "serializable (JBool b) = True"
| "serializable (JInt i) = True"
| "serializable (JFloat x) = True"
| "serializable (JStr s) = True"

fun loads_dumps :: "json \<Rightarrow> json" where
  "loads_dumps (JArr xs) = JArr (map loads_dumps xs)"
| "loads_dumps (JTuple xs) = JArr (map loads_dumps xs)"
| "loads_dumps (JObj kvs) = JObj (zip (map fst kvs) (map loads_dumps (map snd kvs)))"
| "loads_dumps JUnserializable = JUnserializable"
| "loads_dumps JNull = JNull"
| "loads_dumps (JBool b) = JBool b"
| "loads_dumps (JInt i) = JInt i"
| "loads_dumps (JFloat x) = JFloat x"
| "loads_dumps (JStr s) = JStr s"

definition payload_serializable :: "payload \<Rightarrow> bool" where
  "payload_serializable data = list_all serializable (map snd data)"

definition payload_loads_dumps :: "payload \<Rightarrow> payload" where
  "payload_loads_dumps data = map (\<lambda>(k, v). (k, loads_dumps v)) data"

text \<open>Decimal rendering of an integer, as an f-string gives it.\<close>

definition digit_char :: "nat \<Rightarrow> char" where
  "digit_char d = ''0123456789'' ! d"

function str_nat :: "nat \<Rightarrow> string" where
  "str_nat n = (if n < 10 then [digit_char n] else str_nat (n div 10) @ [digit_char (n mod 10)])"
  by pat_completeness auto
termination
  by (relation "measure (\<lambda>n. n)") auto

declare str_nat.simps [simp del]

definition str_int :: "int \<Rightarrow> string" where
  "str_int i = (if i < 0 then ''-'' @ str_nat (nat (- i)) else str_nat (nat i))"

text \<open>
  The Redis server, as far as the service uses it: a key holds a value and the time
  at which it expires, and a key whose time has come is gone. \<open>reachable\<close> is false
  when a command raises a connection error. \<open>glob_match\<close> is Redis's pattern matching
  restricted to the patterns the service builds: \<^verbatim>\<open>*\<close> matches any run of
  characters, every other character matches itself.
\<close>

datatype redis_error = ConnectionError | ResponseError

record redis =
  reachable :: bool
  entries :: "(string \<times> payload \<times> real) list"

fun glob_match :: "string \<Rightarrow> string \<Rightarrow> bool" where
  "glob_match [] s = (s = [])"
| "glob_match (p # ps) [] = (p = CHR ''*'' \<and> glob_match ps [])"
| "glob_match (p # ps) (c # cs) =
     (if p = CHR ''*'' then glob_match ps (c # cs) \<or> glob_match (p # ps) cs
      else p = c \<and> glob_match ps cs)"

definition redis_get :: "redis \<Rightarrow> real \<Rightarrow> string \<Rightarrow> redis_error + payload option" where
  "redis_get r now key =
     (if \<not> reachable r then Inl ConnectionError
      else Inr (case map_of (entries r) key of
                  None \<Rightarrow> None
                | Some (v, expires_at) \<Rightarrow> if now < expires_at then Some v else None))"

text \<open>
  \<^verbatim>\<open>SETEX key seconds value\<close> answers with an error (\<open>invalid expire time\<close>, or
  \<open>value is not an integer or out of range\<close>) unless the seconds are positive, at most
  \<open>LLONG_MAX / 1000\<close>, and the expiry time in milliseconds, the server's clock added,
  stays within a signed 64-bit integer.
\<close>

definition LLONG_MAX :: int where
  "LLONG_MAX = 2 ^ 63 - 1"

definition expire_accepted :: "real \<Rightarrow> int \<Rightarrow> bool" where
  "expire_accepted now ttl \<longleftrightarrow>
     0 < ttl \<and> ttl \<le> LLONG_MAX div 1000 \<and> ttl * 1000 + \<lfloor>now * 1000\<rfloor> \<le> LLONG_MAX"

definition redis_setex :: "redis \<Rightarrow> real \<Rightarrow> string \<Rightarrow> int \<Rightarrow> payload \<Rightarrow> redis_error + redis" where
  "redis_setex r now key ttl v =
     (if \<not> reachable r then Inl ConnectionError
      else if \<not> expire_accepted now ttl then Inl ResponseError
      else Inr (r\<lparr>entries := AList.update key (v, now + real_of_int ttl) (entries r)\<rparr>))"

definition redis_keys :: "redis \<Rightarrow> real \<Rightarrow> string \<Rightarrow> redis_error + string list" where
  "redis_keys r now pattern =
     (if \<not> reachable r then Inl ConnectionError
      else Inr (map fst
             (filter (\<lambda>(k, v, expires_at). now < expires_at \<and> glob_match pattern k)
                (entries r))))"

definition redis_delete :: "redis \<Rightarrow> real \<Rightarrow> string list \<Rightarrow> redis_error + nat \<times> redis" where
  "redis_delete r now keys =
     (if \<not> reachable r then Inl ConnectionError
      else Inr (length (filter (\<lambda>(k, v, expires_at). k \<in> set keys \<and> now < expires_at)
                          (entries r)),
                r\<lparr>entries := filter (\<lambda>(k, v, expires_at). k \<notin> set keys) (entries r)\<rparr>))"

record cache_service =
  enabled :: bool
  redis_client :: "redis option"

definition TTL_SETTINGS :: "(string \<times> int) list" where
  "TTL_SETTINGS =
     [(''municipality_info'', 24 * 60 * 60),
      (''population'', 30 * 24 * 60 * 60),
      (''area'', 365 * 24 * 60 * 60),
      (''density'', 365 * 24 * 60 * 60),
      (''search_results'', 7 * 24 * 60 * 60),
      (''complete_data'', 24 * 60 * 60)]"

text \<open>\<^verbatim>\<open>settings.CACHE_TTL\<close>, at its default.\<close>

definition CACHE_TTL :: int where
  "CACHE_TTL = 3600"

definition generate_key :: "string \<Rightarrow> int \<Rightarrow> string \<Rightarrow> string" where
  "generate_key prefix municipality_id additional =
     (let key = ''ibge:'' @ prefix @ '':'' @ str_int municipality_id
      in if additional \<noteq> [] then key @ '':'' @ additional else key)"

definition cache_get :: "cache_service \<Rightarrow> real \<Rightarrow> string \<Rightarrow> int \<Rightarrow> string \<Rightarrow> payload option" where
  "cache_get cache now key_type municipality_id additional =
     (case redis_client cache of
        None \<Rightarrow> None
      | Some r \<Rightarrow>
          if \<not> enabled cache then None
          else
            let key = generate_key key_type municipality_id additional
            in (case redis_get r now key of
                  Inl e \<Rightarrow> None
                | Inr None \<Rightarrow> None
                | Inr (Some cached_data) \<Rightarrow> Some cached_data))"

text \<open>\<^verbatim>\<open>custom_ttl or self.TTL_SETTINGS.get(key_type, settings.CACHE_TTL)\<close>\<close>

definition effective_ttl :: "string \<Rightarrow> int option \<Rightarrow> int" where
  "effective_ttl key_type custom_ttl =
     (case custom_ttl of
        Some t \<Rightarrow> if t \<noteq> 0 then t
                  else (case map_of TTL_SETTINGS key_type of Some d \<Rightarrow> d | None \<Rightarrow> CACHE_TTL)
      | None \<Rightarrow> (case map_of TTL_SETTINGS key_type of Some d \<Rightarrow> d | None \<Rightarrow> CACHE_TTL))"

text \<open>
  \<open>stamp\<close> is \<^verbatim>\<open>datetime.utcnow().isoformat()\<close>, the reading of the clock at \<open>now\<close>
  as text.
\<close>

definition cache_set ::
  "cache_service \<Rightarrow> real \<Rightarrow> string \<Rightarrow> string \<Rightarrow> int \<Rightarrow> payload \<Rightarrow> string \<Rightarrow> int option
     \<Rightarrow> bool \<times> cache_service" where
  "cache_set cache now stamp key_type municipality_id data additional custom_ttl =
     (case redis_client cache of
        None \<Rightarrow> (False, cache)
      | Some r \<Rightarrow>
          if \<not> enabled cache then (False, cache)
          else
            let key = generate_key key_type municipality_id additional;
                ttl = effective_ttl key_type custom_ttl;
                data_with_metadata =
                  AList.update ''_cache_ttl'' (JInt ttl)
                    (AList.update ''_cached_at'' (JStr stamp) data)
            in if \<not> payload_serializable data_with_metadata then (False, cache)
               else
                 (case redis_setex r now key ttl (payload_loads_dumps data_with_metadata) of
                    Inl e \<Rightarrow> (False, cache)
                  | Inr r' \<Rightarrow> (True, cache\<lparr>redis_client := Some r'\<rparr>)))"

definition clear_municipality_cache :: "cache_service \<Rightarrow> real \<Rightarrow> int \<Rightarrow> nat \<times> cache_service" where
  "clear_municipality_cache cache now municipality_id =
     (case redis_client cache of
        None \<Rightarrow> (0, cache)
      | Some r \<Rightarrow>
          if \<not> enabled cache then (0, cache)
          else
            let pattern = ''ibge:*:'' @ str_int municipality_id @ ''*''
            in (case redis_keys r now pattern of
                  Inl e \<Rightarrow> (0, cache)
                | Inr keys \<Rightarrow>
                    (if keys \<noteq> [] then
                       (case redis_delete r now keys of
                          Inl e \<Rightarrow> (0, cache)
                        | Inr (deleted_count, r') \<Rightarrow>
                            (deleted_count, cache\<lparr>redis_client := Some r'\<rparr>))
                     else (0, cache))))"


section \<open>IBGE service\<close>

text \<open>
  Embedding of \<^verbatim>\<open>backend/app/services/ibge_service.py\<close>. What the provider answers
  to one request is an input of the model: \<open>Delivered x\<close> when the call and the
  decoding of the body went through, with \<open>x\<close> the dictionary the method builds from
  the body (or \<open>None\<close> where the body holds no series), and one constructor for each
  way the call raises. Every method catches what its call raises and returns
  \<^verbatim>\<open>None\<close>.
\<close>

datatype 'a reply = Delivered 'a | HTTPStatusError nat | TimeoutException | OtherException

record ibge_service =
  cache_enabled :: bool

definition get_municipality_info :: "payload reply \<Rightarrow> int \<Rightarrow> payload option" where
  "get_municipality_info reply municipality_id =
     (case reply of
        Delivered info \<Rightarrow> Some info
      | HTTPStatusError code \<Rightarrow> None
      | TimeoutException \<Rightarrow> None
      | OtherException \<Rightarrow> None)"

text \<open>
  \<^verbatim>\<open>get_population_data\<close>, \<^verbatim>\<open>get_area_data\<close> and \<^verbatim>\<open>get_density_data\<close> have one
  shape: read the cache under the method's key type, else ask the provider, store what
  it delivered, return it. \<open>get_indicator_data\<close> is that shape, the key type a
  parameter.
\<close>

definition fetch_indicator ::
  "string \<Rightarrow> ibge_service \<Rightarrow> cache_service \<Rightarrow> real \<Rightarrow> string \<Rightarrow> payload option reply \<Rightarrow> int
     \<Rightarrow> payload option \<times> cache_service" where
  "fetch_indicator key_type svc cache now stamp reply municipality_id =
     (case reply of
        Delivered (Some result) \<Rightarrow>
          (Some result,
           if cache_enabled svc
           then snd (cache_set cache now stamp key_type municipality_id result [] None)
           else cache)
      | Delivered None \<Rightarrow> (None, cache)
      | HTTPStatusError code \<Rightarrow> (None, cache)
      | TimeoutException \<Rightarrow> (None, cache)
      | OtherException \<Rightarrow> (None, cache))"

definition get_indicator_data ::
  "string \<Rightarrow> ibge_service \<Rightarrow> cache_service \<Rightarrow> real \<Rightarrow> string \<Rightarrow> payload option reply \<Rightarrow> int
     \<Rightarrow> payload option \<times> cache_service" where
  "get_indicator_data key_type svc cache now stamp reply municipality_id =
     (let cached_data =
            (if cache_enabled svc then cache_get cache now key_type municipality_id []
             else None)
      in case cached_data of
           Some c \<Rightarrow>
             (if c \<noteq> [] then (Some c, cache)
              else fetch_indicator key_type svc cache now stamp reply municipality_id)
         | None \<Rightarrow> fetch_indicator key_type svc cache now stamp reply municipality_id)"

definition get_population_data ::
  "ibge_service \<Rightarrow> cache_service \<Rightarrow> real \<Rightarrow> string \<Rightarrow> payload option reply \<Rightarrow> int
     \<Rightarrow> payload option \<times> cache_service" where
  "get_population_data = get_indicator_data ''population''"

definition get_area_data ::
  "ibge_service \<Rightarrow> cache_service \<Rightarrow> real \<Rightarrow> string \<Rightarrow> payload option reply \<Rightarrow> int
     \<Rightarrow> payload option \<times> cache_service" where
  "get_area_data = get_indicator_data ''area''"

definition get_density_data ::
  "ibge_service \<Rightarrow> cache_service \<Rightarrow> real \<Rightarrow> string \<Rightarrow> payload option reply \<Rightarrow> int
     \<Rightarrow> payload option \<times> cache_service" where
  "get_density_data = get_indicator_data ''density''"

definition get_economic_indicators :: "int \<Rightarrow> payload" where
  "get_economic_indicators municipality_id =
     [(''municipality_id'', JInt municipality_id),
      (''indicators'', JObj []),
      (''available_indicators'',
         JArr [JStr ''populacao_estimada'', JStr ''area_territorial'',
               JStr ''densidade_demografica'']),
      (''note'', JStr (''Indicadores econ'' @ [CHR 0xC3, CHR 0xB4] @ ''micos espec'' @ [CHR 0xC3, CHR 0xAD] @ ''ficos podem ser adicionados conforme demanda''))]"

text \<open>The answers of the provider to the four calls of one request.\<close>

record replies =
  r_basic_info :: "payload reply"
  r_population :: "payload option reply"
  r_area :: "payload option reply"
  r_density :: "payload option reply"

record municipality_data =
  m_municipality_id :: int
  m_basic_info :: "payload option"
  m_population :: "payload option"
  m_area :: "payload option"
  m_density :: "payload option"
  m_economic_indicators :: payload
  m_last_updated :: string
  m_data_sources :: "string list"

text \<open>
  \<^verbatim>\<open>asyncio.gather(..., return_exceptions=True)\<close> hands an exception back as a value
  (\<open>Inl\<close> here); the result dictionary puts \<^verbatim>\<open>None\<close> (an empty dictionary for the
  economic indicators) in the place of one.
\<close>

definition assemble ::
  "int \<Rightarrow> string + payload option \<Rightarrow> string + payload option \<Rightarrow> string + payload option
     \<Rightarrow> string + payload option \<Rightarrow> string + payload \<Rightarrow> municipality_data" where
  "assemble municipality_id basic_info population area density economic_indicators =
     \<lparr>m_municipality_id = municipality_id,
      m_basic_info = (case basic_info of Inl e \<Rightarrow> None | Inr v \<Rightarrow> v),
      m_population = (case population of Inl e \<Rightarrow> None | Inr v \<Rightarrow> v),
      m_area = (case area of Inl e \<Rightarrow> None | Inr v \<Rightarrow> v),
      m_density = (case density of Inl e \<Rightarrow> None | Inr v \<Rightarrow> v),
      m_economic_indicators = (case economic_indicators of Inl e \<Rightarrow> [] | Inr v \<Rightarrow> v),
      m_last_updated = ''2024-07-03'',
      m_data_sources = [''IBGE - Localidades'',
         ''IBGE - Estimativas de Popula'' @ [CHR 0xC3, CHR 0xA7, CHR 0xC3, CHR 0xA3] @ ''o'',
         ''IBGE - Censo Demogr'' @ [CHR 0xC3, CHR 0xA1] @ ''fico 2010'']\<rparr>"

text \<open>
  \<open>get_complete_municipality_data\<close> returns the result dictionary (\<open>Inr\<close>) or, from
  its exception handler, the dictionary with the keys \<^verbatim>\<open>error\<close> and
  \<^verbatim>\<open>municipality_id\<close> (\<open>Inl\<close>). The three cached methods use three different keys,
  so the order in which the gathered tasks touch the cache does not matter; the model
  runs them in the order of the call.
\<close>

definition get_complete_municipality_data ::
  "ibge_service \<Rightarrow> cache_service \<Rightarrow> real \<Rightarrow> string \<Rightarrow> replies \<Rightarrow> int
     \<Rightarrow> (string \<times> int + municipality_data) \<times> cache_service" where
  "get_complete_municipality_data svc cache now stamp rs municipality_id =
     (let basic_info = get_municipality_info (r_basic_info rs) municipality_id;
          (population, cache1) =
             get_population_data svc cache now stamp (r_population rs) municipality_id;
          (area, cache2) =
             get_area_data svc cache1 now stamp (r_area rs) municipality_id;
          (density, cache3) =
             get_density_data svc cache2 now stamp (r_density rs) municipality_id;
          economic_indicators = get_economic_indicators municipality_id
      in (Inr (assemble municipality_id (Inr basic_info) (Inr population) (Inr area)
                 (Inr density) (Inr economic_indicators)),
          cache3))"

section \<open>Places provider\<close>

text \<open>
  Embedding of \<^verbatim>\<open>backend/app/services/google_places.py\<close>. What the HTTP session
  gives for one request is an input of the model:
  \<^item> a response with its status code and its decoded body, a JSON object or a JSON
    value of another kind (a list, a string, \<^verbatim>\<open>null\<close>: a value without \<^verbatim>\<open>.get\<close>);
  \<^item> an \<^verbatim>\<open>aiohttp.ClientError\<close> (connection errors, a socket time-out, a body whose
    content type is not JSON);
  \<^item> the total time-out of the session, an \<^verbatim>\<open>asyncio.TimeoutError\<close> that is not a
    client error;
  \<^item> a body announced as JSON that does not parse (\<^verbatim>\<open>json.JSONDecodeError\<close>).
  \<^verbatim>\<open>_make_request\<close> turns a client error and a status code other than 200 into an
  \<^verbatim>\<open>HTTPException\<close>; the public methods catch \<^verbatim>\<open>HTTPException\<close> and nothing else.
\<close>

record google_places_service =
  api_key :: "string option"

text \<open>\<^verbatim>\<open>not self.api_key\<close> holds for \<^verbatim>\<open>None\<close> and for the empty string.\<close>

definition has_key :: "google_places_service \<Rightarrow> bool" where
  "has_key svc \<longleftrightarrow> (case api_key svc of None \<Rightarrow> False | Some k \<Rightarrow> k \<noteq> [])"

record 'a api_body =
  b_status :: "string option"
  b_results :: "'a list option"
  b_error_message :: "string option"

datatype 'a body = JsonObject "'a api_body" | JsonOther

datatype 'a transport =
    Response nat "'a body"
  | ClientError string
  | TotalTimeout
  | UndecodableBody

datatype http_exception = HTTPException nat string

datatype raised = Http http_exception | Other py_exception

definition make_request :: "google_places_service \<Rightarrow> 'a transport \<Rightarrow> raised + 'a body" where
  "make_request svc t =
     (if \<not> has_key svc then
        Inr (JsonObject \<lparr>b_status = Some ''REQUEST_DENIED'', b_results = None,
                         b_error_message = Some ''No API key configured''\<rparr>)
      else
        (case t of
           Response status result \<Rightarrow>
             (if status \<noteq> 200 then
                (case result of
                   JsonObject b \<Rightarrow>
                     Inl (Http (HTTPException status
                            (''Google Places API error: ''
                               @ (case b_error_message b of
                                    Some m \<Rightarrow> m | None \<Rightarrow> ''Unknown error''))))
                 | JsonOther \<Rightarrow> Inl (Other AttributeError))
              else Inr result)
         | ClientError e \<Rightarrow>
             Inl (Http (HTTPException 500
                    (''Network error accessing Google Places API: '' @ e)))
         | TotalTimeout \<Rightarrow> Inl (Other AsyncioTimeoutError)
         | UndecodableBody \<Rightarrow> Inl (Other JSONDecodeError)))"

text \<open>
  The part the two search methods share after their mock branch: the request, the
  reading of \<^verbatim>\<open>status\<close> and \<^verbatim>\<open>results\<close>, and the handler of \<^verbatim>\<open>HTTPException\<close>.
\<close>

definition request_list :: "google_places_service \<Rightarrow> 'a transport \<Rightarrow> py_exception + 'a list" where
  "request_list svc t =
     (case make_request svc t of
        Inr (JsonObject result) \<Rightarrow>
          Inr (if b_status result = Some ''OK''
               then (case b_results result of Some rs \<Rightarrow> rs | None \<Rightarrow> [])
               else [])
      | Inr JsonOther \<Rightarrow> Inl AttributeError
      | Inl (Http e) \<Rightarrow> Inr []
      | Inl (Other x) \<Rightarrow> Inl x)"

text \<open>The same for the two geocoding methods, which return the first result.\<close>

definition request_first :: "google_places_service \<Rightarrow> 'a transport \<Rightarrow> py_exception + 'a option" where
  "request_first svc t =
     (case make_request svc t of
        Inr (JsonObject result) \<Rightarrow>
          Inr (if b_status result = Some ''OK'' then
                 (case b_results result of
                    Some (first # others) \<Rightarrow> Some first
                  | Some [] \<Rightarrow> None
                  | None \<Rightarrow> None)
               else None)
      | Inr JsonOther \<Rightarrow> Inl AttributeError
      | Inl (Http e) \<Rightarrow> Inr None
      | Inl (Other x) \<Rightarrow> Inl x)"

definition mock_places :: "real \<Rightarrow> real \<Rightarrow> place list" where
  "mock_places latitude longitude =
     [\<lparr>pl_place_id = Some ''mock_hospital_1'',
       pl_name = Some ''Hospital Mock'',
       pl_formatted_address = None,
       pl_types = Some [''hospital'', ''health''],
       pl_lat = Some (Number (latitude + 0.001)),
       pl_lng = Some (Number (longitude + 0.001)),
       pl_rating = Some 4.2,
       pl_vicinity = Some ''Rua Mock, 123''\<rparr>,
      \<lparr>pl_place_id = Some ''mock_school_1'',
       pl_name = Some ''Escola Mock'',
       pl_formatted_address = None,
       pl_types = Some [''school'', ''education''],
       pl_lat = Some (Number (latitude - 0.001)),
       pl_lng = Some (Number (longitude - 0.001)),
       pl_rating = Some 4.5,
       pl_vicinity = Some ''Avenida Mock, 456''\<rparr>]"

definition get_nearby_places ::
  "google_places_service \<Rightarrow> real \<Rightarrow> real \<Rightarrow> string option \<Rightarrow> int \<Rightarrow> string option
     \<Rightarrow> place transport \<Rightarrow> py_exception + place list" where
  "get_nearby_places svc latitude longitude place_type radius keyword t =
     (if \<not> has_key svc then
        (case place_type of
           None \<Rightarrow> Inr (mock_places latitude longitude)
         | Some ty \<Rightarrow>
             (if ty \<noteq> [] then
                Inr (filter (\<lambda>p. ty \<in> set (case pl_types p of Some ts \<Rightarrow> ts | None \<Rightarrow> []))
                       (mock_places latitude longitude))
              else Inr (mock_places latitude longitude)))
      else request_list svc t)"

text \<open>
  The mock results of the text search, \<^verbatim>\<open>for i in range(min(5, 3))\<close>.
\<close>

definition mock_search_result :: "string \<Rightarrow> nat \<Rightarrow> place" where
  "mock_search_result query i =
     \<lparr>pl_place_id = Some (''mock_place_'' @ str_nat i),
      pl_name = Some (''Mock result '' @ str_nat (i + 1) @ '' for '' @ [CHR 0x27] @ query
                        @ [CHR 0x27]),
      pl_formatted_address = Some (''Mock address '' @ str_nat (i + 1) @ ('', S'' @ [CHR 0xC3, CHR 0xA3] @ ''o Paulo, SP, Brazil'')),
      pl_types = Some [''establishment''],
      pl_lat = Some (Number (-23.5505 + real i * 0.001)),
      pl_lng = Some (Number (-46.6333 + real i * 0.001)),
      pl_rating = Some (4.0 + real i * 0.1),
      pl_vicinity = None\<rparr>"

definition search_places ::
  "google_places_service \<Rightarrow> string \<Rightarrow> (real \<times> real) option \<Rightarrow> int \<Rightarrow> place transport
     \<Rightarrow> py_exception + place list" where
  "search_places svc query location radius t =
     (if \<not> has_key svc then Inr (map (mock_search_result query) [0 ..< min 5 3])
      else request_list svc t)"

record geocode_result =
  g_place_id :: string
  g_formatted_address :: string
  g_location :: "real \<times> real"
  g_address_components :: "(string \<times> string list) list"

definition mock_address_components :: "(string \<times> string list) list" where
  "mock_address_components =
     [(''S'' @ [CHR 0xC3, CHR 0xA3] @ ''o Paulo'', [''locality'']),
      (''SP'', [''administrative_area_level_1'']),
      (''Brazil'', [''country''])]"

definition mock_geocode :: "string \<Rightarrow> geocode_result" where
  "mock_geocode address =
     \<lparr>g_place_id = ''mock_place_id'',
      g_formatted_address = ''Mock result for: '' @ address,
      g_location = (-23.5505, -46.6333),
      g_address_components = mock_address_components\<rparr>"

definition geocode_address ::
  "google_places_service \<Rightarrow> string \<Rightarrow> geocode_result transport
     \<Rightarrow> py_exception + geocode_result option" where
  "geocode_address svc address t =
     (if \<not> has_key svc then Inr (Some (mock_geocode address))
      else request_first svc t)"

text \<open>
  \<open>fmt\<close> is the text of a float in an f-string; the mock address of the reverse
  geocoding is built from it.
\<close>

definition mock_reverse_geocode :: "(real \<Rightarrow> string) \<Rightarrow> real \<Rightarrow> real \<Rightarrow> geocode_result" where
  "mock_reverse_geocode fmt latitude longitude =
     \<lparr>g_place_id = ''mock_reverse_place_id'',
      g_formatted_address = ''Mock address for '' @ fmt latitude @ '', '' @ fmt longitude,
      g_location = (latitude, longitude),
      g_address_components = mock_address_components\<rparr>"

definition reverse_geocode ::
  "(real \<Rightarrow> string) \<Rightarrow> google_places_service \<Rightarrow> real \<Rightarrow> real \<Rightarrow> geocode_result transport
     \<Rightarrow> py_exception + geocode_result option" where
  "reverse_geocode fmt svc latitude longitude t =
     (if \<not> has_key svc then Inr (Some (mock_reverse_geocode fmt latitude longitude))
      else request_first svc t)"

section \<open>Administration: cache warm-up\<close>

text \<open>
  Embedding of \<^verbatim>\<open>warm_up_cache\<close> in \<^verbatim>\<open>backend/app/api/api_v1/endpoints/admin.py\<close>.
  \<open>load municipality_id\<close> tells whether the awaited call for that municipality
  returned (\<open>True\<close>) or raised. The statistics are the dictionary with the keys
  \<^verbatim>\<open>processed\<close>, \<^verbatim>\<open>cached\<close> and \<^verbatim>\<open>errors\<close>.
\<close>

definition incr :: "string \<Rightarrow> (string \<times> nat) list \<Rightarrow> (string \<times> nat) list" where
  "incr key stats = map (\<lambda>(k, n). if k = key then (k, n + 1) else (k, n)) stats"

fun warm_up_loop :: "(int \<Rightarrow> bool) \<Rightarrow> int list \<Rightarrow> (string \<times> nat) list \<Rightarrow> (string \<times> nat) list" where
  "warm_up_loop load [] stats = stats"
| "warm_up_loop load (municipality_id # ids) stats =
     warm_up_loop load ids
       (if load municipality_id then incr ''cached'' (incr ''processed'' stats)
        else incr ''errors'' stats)"

record warm_up_result =
  w_status :: string
  w_statistics :: "(string \<times> nat) list"
  w_message :: string

definition warm_up_cache :: "(int \<Rightarrow> bool) \<Rightarrow> int list \<Rightarrow> warm_up_result" where
  "warm_up_cache load municipality_ids =
     \<lparr>w_status = ''completed'',
      w_statistics =
        warm_up_loop load (take 50 municipality_ids)
          [(''processed'', 0), (''cached'', 0), (''errors'', 0)],
      w_message = (''Warm-up conclu'' @ [CHR 0xC3, CHR 0xAD] @ ''do para '') @ str_nat (length municipality_ids) @ ('' munic'' @ [CHR 0xC3, CHR 0xAD] @ ''pios'')\<rparr>"


section \<open>Notions of the specification used in the statements\<close>

text \<open>
  The provider errors that the adapter turns into an empty result: a client error,
  or a JSON object sent with a status code other than 200 or with a status field
  other than \<^verbatim>\<open>OK\<close>.
\<close>

definition handled_error :: "'a transport \<Rightarrow> bool" where
  "handled_error t \<longleftrightarrow>
     (case t of
        ClientError e \<Rightarrow> True
      | Response status (JsonObject b) \<Rightarrow> status \<noteq> 200 \<or> b_status b \<noteq> Some ''OK''
      | Response status JsonOther \<Rightarrow> False
      | TotalTimeout \<Rightarrow> False
      | UndecodableBody \<Rightarrow> False)"

text \<open>
  The provider errors that the adapter lets through, with the exception that
  reaches the caller.
\<close>

definition escaping_error :: "'a transport \<Rightarrow> py_exception option" where
  "escaping_error t =
     (case t of
        TotalTimeout \<Rightarrow> Some AsyncioTimeoutError
      | UndecodableBody \<Rightarrow> Some JSONDecodeError
      | Response status JsonOther \<Rightarrow> Some AttributeError
      | Response status (JsonObject b) \<Rightarrow> None
      | ClientError e \<Rightarrow> None)"

text \<open>A reading of the cache that finds nothing usable under a key type.\<close>

definition cache_miss :: "ibge_service \<Rightarrow> cache_service \<Rightarrow> real \<Rightarrow> string \<Rightarrow> int \<Rightarrow> bool" where
  "cache_miss svc cache now key_type municipality_id \<longleftrightarrow>
     \<not> cache_enabled svc
     \<or> cache_get cache now key_type municipality_id [] = None
     \<or> cache_get cache now key_type municipality_id [] = Some []"


section \<open>The category classifier\<close>

lemma categorize_in_find:
  "categorize_in m ts = map_option fst (find (\<lambda>(c, types). set types \<inter> set ts \<noteq> {}) m)"
  by (induction m ts rule: categorize_in.induct) (auto simp: list_ex_iff)

lemma categorize_in_None:
  "categorize_in m ts = None \<longleftrightarrow> (\<forall>(c, types) \<in> set m. set types \<inter> set ts = {})"
  by (induction m ts rule: categorize_in.induct) (auto simp: list_ex_iff)

lemma categorize_in_Some:
  "categorize_in m ts = Some c \<longleftrightarrow>
     (\<exists>k < length m. fst (m ! k) = c \<and> set (snd (m ! k)) \<inter> set ts \<noteq> {}
        \<and> (\<forall>j < k. set (snd (m ! j)) \<inter> set ts = {}))"
proof (induction m ts rule: categorize_in.induct)
  case (1 place_types)
  then show ?case by simp
next
  case (2 category types rest place_types)
  let ?m = "(category, types) # rest"
  show ?case
  proof (cases "set types \<inter> set place_types = {}")
    case True
    then have miss: "\<not> list_ex (\<lambda>place_type. place_type \<in> set types) place_types"
      by (auto simp: list_ex_iff)
    have "(\<exists>k < length ?m. fst (?m ! k) = c
          \<and> set (snd (?m ! k)) \<inter> set place_types \<noteq> {}
          \<and> (\<forall>j < k. set (snd (?m ! j)) \<inter> set place_types = {}))
       \<longleftrightarrow> (\<exists>k < length rest. fst (rest ! k) = c
          \<and> set (snd (rest ! k)) \<inter> set place_types \<noteq> {}
          \<and> (\<forall>j < k. set (snd (rest ! j)) \<inter> set place_types = {}))"
      (is "?L \<longleftrightarrow> ?R")
    proof
      assume ?L
      then obtain k where k: "k < length ?m" "fst (?m ! k) = c"
          "set (snd (?m ! k)) \<inter> set place_types \<noteq> {}"
          "\<forall>j < k. set (snd (?m ! j)) \<inter> set place_types = {}"
        by blast
      from k(3) True have "k \<noteq> 0" by (cases k) auto
      then obtain k' where k': "k = Suc k'" by (cases k) auto
      have "\<forall>j < k'. set (snd (rest ! j)) \<inter> set place_types = {}"
      proof (intro allI impI)
        fix j assume "j < k'"
        then have "Suc j < k" using k' by simp
        with k(4) have "set (snd (?m ! Suc j)) \<inter> set place_types = {}"
          by blast
        then show "set (snd (rest ! j)) \<inter> set place_types = {}" by simp
      qed
      with k k' show ?R by auto
    next
      assume ?R
      then obtain k where k: "k < length rest" "fst (rest ! k) = c"
          "set (snd (rest ! k)) \<inter> set place_types \<noteq> {}"
          "\<forall>j < k. set (snd (rest ! j)) \<inter> set place_types = {}"
        by blast
      have "\<forall>j < Suc k. set (snd (?m ! j)) \<inter> set place_types = {}"
      proof (intro allI impI)
        fix j assume "j < Suc k"
        then show "set (snd (?m ! j)) \<inter> set place_types = {}"
          using True k(4) by (cases j) auto
      qed
      with k show ?L by (intro exI [of _ "Suc k"]) simp
    qed
    moreover have "categorize_in ?m place_types = categorize_in rest place_types"
      using miss by simp
    ultimately show ?thesis by (simp only: "2.IH" [OF miss])
  next
    case False
    then have hit: "categorize_in ?m place_types = Some category"
      by (auto simp: list_ex_iff)
    show ?thesis
    proof
      assume "categorize_in ?m place_types = Some c"
      with hit have "c = category" by simp
      with False show "\<exists>k < length ?m. fst (?m ! k) = c
          \<and> set (snd (?m ! k)) \<inter> set place_types \<noteq> {}
          \<and> (\<forall>j < k. set (snd (?m ! j)) \<inter> set place_types = {})"
        by (intro exI [of _ 0]) simp
    next
      assume "\<exists>k < length ?m. fst (?m ! k) = c
          \<and> set (snd (?m ! k)) \<inter> set place_types \<noteq> {}
          \<and> (\<forall>j < k. set (snd (?m ! j)) \<inter> set place_types = {})"
      then obtain k where k: "fst (?m ! k) = c"
          "\<forall>j < k. set (snd (?m ! j)) \<inter> set place_types = {}"
        by blast
      have "k = 0"
      proof (rule ccontr)
        assume "k \<noteq> 0"
        then have "0 < k" by simp
        with k(2) have "set (snd (?m ! 0)) \<inter> set place_types = {}"
          by blast
        with False show False by simp
      qed
      with k(1) hit show "categorize_in ?m place_types = Some c"
        by simp
    qed
  qed
qed

lemma categorize_in_set_cong:
  "set ts = set ts' \<Longrightarrow> categorize_in m ts = categorize_in m ts'"
  by (simp add: categorize_in_find)

text \<open>
  C10: the classifier's answer depends only on the set of type tags, not on their
  order or multiplicity. It is the first category, in the declaration order
  healthcare, education, transportation, shopping, services, recreation, dining, whose
  recognised tags meet the tags of the place, and it is \<open>None\<close> exactly when no tag
  belongs to the tags of any category.
\<close>

theorem categorize_place_set_determined:
  "map fst place_type_mapping =
      [''healthcare'', ''education'', ''transportation'', ''shopping'', ''services'',
       ''recreation'', ''dining'']
   \<and> (set ts = set ts' \<longrightarrow> categorize_place ts = categorize_place ts')
   \<and> (categorize_place ts = Some c \<longleftrightarrow>
        (\<exists>k < length place_type_mapping.
            fst (place_type_mapping ! k) = c
          \<and> set (snd (place_type_mapping ! k)) \<inter> set ts \<noteq> {}
          \<and> (\<forall>j < k. set (snd (place_type_mapping ! j)) \<inter> set ts = {})))
   \<and> (categorize_place ts = None \<longleftrightarrow>
        (\<forall>(category, types) \<in> set place_type_mapping. set types \<inter> set ts = {}))"
proof (intro conjI)
  show "map fst place_type_mapping =
      [''healthcare'', ''education'', ''transportation'', ''shopping'', ''services'',
       ''recreation'', ''dining'']"
    by (simp add: place_type_mapping_def)
  show "set ts = set ts' \<longrightarrow> categorize_place ts = categorize_place ts'"
  proof
    assume "set ts = set ts'"
    then show "categorize_place ts = categorize_place ts'"
      unfolding categorize_place_def by (rule categorize_in_set_cong)
  qed
  show "categorize_place ts = Some c \<longleftrightarrow>
        (\<exists>k < length place_type_mapping.
            fst (place_type_mapping ! k) = c
          \<and> set (snd (place_type_mapping ! k)) \<inter> set ts \<noteq> {}
          \<and> (\<forall>j < k. set (snd (place_type_mapping ! j)) \<inter> set ts = {}))"
    unfolding categorize_place_def by (rule categorize_in_Some)
  show "categorize_place ts = None \<longleftrightarrow>
        (\<forall>(category, types) \<in> set place_type_mapping. set types \<inter> set ts = {})"
    unfolding categorize_place_def by (rule categorize_in_None)
qed

text \<open>
  A place tagged school and hospital, in either order and with a tag repeated, is a
  healthcare place: healthcare is declared before education.
\<close>

theorem categorize_place_set_determined_witness:
  "set [''school'', ''hospital''] = set [''hospital'', ''school'', ''hospital'']
   \<and> categorize_place [''school'', ''hospital'']
       = categorize_place [''hospital'', ''school'', ''hospital'']
   \<and> categorize_place [''school'', ''hospital''] = Some ''healthcare''
   \<and> (\<exists>k < length place_type_mapping.
          fst (place_type_mapping ! k) = ''healthcare''
        \<and> set (snd (place_type_mapping ! k)) \<inter> set [''school'', ''hospital''] \<noteq> {}
        \<and> (\<forall>j < k. set (snd (place_type_mapping ! j)) \<inter> set [''school'', ''hospital''] = {}))"
proof -
  have s: "set [''school'', ''hospital''] = set [''hospital'', ''school'', ''hospital'']"
    by auto
  have v: "categorize_place [''school'', ''hospital''] = Some ''healthcare''"
    by (simp add: categorize_place_def place_type_mapping_def)
  note T = categorize_place_set_determined
        [of "[''school'', ''hospital'']" "[''hospital'', ''school'', ''hospital'']" "''healthcare''"]
  from T have "set [''school'', ''hospital''] = set [''hospital'', ''school'', ''hospital'']
      \<longrightarrow> categorize_place [''school'', ''hospital'']
            = categorize_place [''hospital'', ''school'', ''hospital'']"
    by (elim conjE)
  with s have e: "categorize_place [''school'', ''hospital'']
            = categorize_place [''hospital'', ''school'', ''hospital'']"
    by (rule_tac mp)
  from T have "categorize_place [''school'', ''hospital''] = Some ''healthcare'' \<longleftrightarrow>
     (\<exists>k < length place_type_mapping.
          fst (place_type_mapping ! k) = ''healthcare''
        \<and> set (snd (place_type_mapping ! k)) \<inter> set [''school'', ''hospital''] \<noteq> {}
        \<and> (\<forall>j < k. set (snd (place_type_mapping ! j)) \<inter> set [''school'', ''hospital''] = {}))"
    by (elim conjE)
  with v have x: "\<exists>k < length place_type_mapping.
          fst (place_type_mapping ! k) = ''healthcare''
        \<and> set (snd (place_type_mapping ! k)) \<inter> set [''school'', ''hospital''] \<noteq> {}
        \<and> (\<forall>j < k. set (snd (place_type_mapping ! j)) \<inter> set [''school'', ''hospital''] = {})"
    by (rule_tac iffD1)
  from s e v x show ?thesis by (intro conjI)
qed

section \<open>The proximity curve\<close>

lemma ideal_dist_of_cases:
  "ideal_dist_of c \<in> {1000, 800, 500, 600, 1200, 1500, 400}"
  by (simp add: ideal_dist_of_def ideal_distances_def)

lemma ideal_dist_of_pos: "0 < ideal_dist_of c"
  using ideal_dist_of_cases [of c] by auto

text \<open>The curve over the ratio of the distance to the ideal distance.\<close>

lemma score_ratio:
  assumes "0 < ideal_dist_of c"
  shows "calculate_proximity_score d c =
     (let x = d / ideal_dist_of c in
      if x \<le> 1 then 10
      else if x \<le> 2 then 10 - 5 * (x - 1)
      else if x \<le> 4 then 5 - 3 * (x - 2) / 2
      else max 0 (2 - x / 10))"
  using assms by (simp add: calculate_proximity_score_def Let_def field_simps)

lemma ratio_curve_mono:
  fixes x y :: real
  assumes "x \<le> y"
  shows "(if y \<le> 1 then 10
          else if y \<le> 2 then 10 - 5 * (y - 1)
          else if y \<le> 4 then 5 - 3 * (y - 2) / 2
          else max 0 (2 - y / 10))
       \<le> (if x \<le> 1 then 10
          else if x \<le> 2 then 10 - 5 * (x - 1)
          else if x \<le> 4 then 5 - 3 * (x - 2) / 2
          else max 0 (2 - x / 10))"
  using assms unfolding max_def by (simp split: if_splits) argo

lemma ratio_curve_bounds:
  fixes x :: real
  shows "0 \<le> (if x \<le> 1 then 10
          else if x \<le> 2 then 10 - 5 * (x - 1)
          else if x \<le> 4 then 5 - 3 * (x - 2) / 2
          else max 0 (2 - x / 10))"
    and "(if x \<le> 1 then 10
          else if x \<le> 2 then 10 - 5 * (x - 1)
          else if x \<le> 4 then 5 - 3 * (x - 2) / 2
          else max 0 (2 - x / 10)) \<le> (10::real)"
  by (cases "x \<le> 1"; cases "x \<le> 2"; cases "x \<le> 4"; simp add: max_def field_simps)+

lemma score_mono:
  assumes "d \<le> d'"
  shows "calculate_proximity_score d' c \<le> calculate_proximity_score d c"
proof -
  have "d / ideal_dist_of c \<le> d' / ideal_dist_of c"
    using assms ideal_dist_of_pos [of c] by (simp add: divide_right_mono)
  then show ?thesis
    unfolding score_ratio [OF ideal_dist_of_pos] Let_def
    by (rule ratio_curve_mono)
qed

lemma score_bounds:
  "0 \<le> calculate_proximity_score d c" "calculate_proximity_score d c \<le> 10"
  unfolding score_ratio [OF ideal_dist_of_pos] Let_def
  by (rule ratio_curve_bounds)+

lemma score_at_zero: "calculate_proximity_score 0 c = 10"
  using ideal_dist_of_pos [of c] by (simp add: calculate_proximity_score_def Let_def)

text \<open>
  C8: for every distance \<open>d \<ge> 0\<close> and every category (its ideal distance is
  positive), the proximity score does not increase as the distance grows, lies in the
  closed interval from 0 to 10, and is exactly 10 at distance 0.
\<close>

theorem proximity_score_monotone_bounded:
  assumes "0 \<le> d" and "d \<le> d'"
  shows "0 < ideal_dist_of c
       \<and> calculate_proximity_score d' c \<le> calculate_proximity_score d c
       \<and> 0 \<le> calculate_proximity_score d c
       \<and> calculate_proximity_score d c \<le> 10
       \<and> calculate_proximity_score 0 c = 10"
  using assms(2) by (simp add: ideal_dist_of_pos score_mono score_bounds score_at_zero)

text \<open>A healthcare facility at 500 m scores 10, one at 3000 m scores 3.5.\<close>

theorem proximity_score_monotone_bounded_witness:
  "(0::real) \<le> 500 \<and> (500::real) \<le> 3000
   \<and> calculate_proximity_score 3000 ''healthcare'' \<le> calculate_proximity_score 500 ''healthcare''
   \<and> calculate_proximity_score 500 ''healthcare'' = 10
   \<and> calculate_proximity_score 3000 ''healthcare'' = 7 / 2
   \<and> calculate_proximity_score 0 ''healthcare'' = 10"
proof -
  have a: "(0::real) \<le> 500" and b: "(500::real) \<le> 3000" by simp_all
  have v: "calculate_proximity_score 500 ''healthcare'' = 10"
      "calculate_proximity_score 3000 ''healthcare'' = 7 / 2"
    by (simp_all add: calculate_proximity_score_def ideal_dist_of_def ideal_distances_def)
  show ?thesis
    using a b v proximity_score_monotone_bounded [OF a b, of "''healthcare''"]
    by simp
qed

lemma far_branch:
  assumes "4 * ideal_dist_of c < d"
  shows "calculate_proximity_score d c = max 0 (2 - d / (ideal_dist_of c * 10))"
  using assms ideal_dist_of_pos [of c]
  by (simp add: calculate_proximity_score_def Let_def)

text \<open>
  C2: beyond four times the ideal distance the specification's curve is
  \<open>max(0, 2 - (d - 4 i) / (10 i))\<close>, which continues the third piece at its value 2.
  The code subtracts \<open>d / (10 i)\<close> instead, without the offset \<open>4 i\<close> that its two
  middle pieces subtract: for healthcare (ideal distance 1000) the score is 2 at
  4000 m, and just beyond it starts below 1.6; at 5000 m it is 1.5 where the
  specification's curve gives 1.9.
\<close>

theorem far_branch_omits_offset:
  "ideal_dist_of ''healthcare'' = 1000
   \<and> calculate_proximity_score 4000 ''healthcare'' = 2
   \<and> calculate_proximity_score 4001 ''healthcare'' = 15999 / 10000
   \<and> spec_far_score 4001 (ideal_dist_of ''healthcare'') = 19999 / 10000
   \<and> calculate_proximity_score 5000 ''healthcare'' = 3 / 2
   \<and> spec_far_score 5000 (ideal_dist_of ''healthcare'') = 19 / 10"
  by (simp add: calculate_proximity_score_def spec_far_score_def ideal_dist_of_def
        ideal_distances_def)

section \<open>Grouping and per-category aggregation\<close>

lemma infrastructure_weights_sum: "sum_list (map snd infrastructure_weights) = 1"
  by (simp add: infrastructure_weights_def)

lemma append_score_keys: "map fst (append_score c e cs) = map fst cs"
  by (induction cs) (auto simp: append_score_def)

lemma collect_scores_keys:
  "collect_scores la lo ps cs = Inr cs' \<Longrightarrow> map fst cs' = map fst cs"
proof (induction ps arbitrary: cs)
  case Nil
  then show ?case by simp
next
  case (Cons pl ps)
  then show ?case
    by (auto simp: append_score_keys split: sum.splits option.splits)
qed

lemma map_of_append_score:
  "map_of (append_score c e cs) k =
     (case map_of cs k of None \<Rightarrow> None
      | Some places \<Rightarrow> Some (if k = c then places @ [e] else places))"
  by (induction cs) (auto simp: append_score_def)

lemma map_of_collect_scores:
  "collect_scores la lo ps cs = Inr cs' \<Longrightarrow>
   map_of cs' k =
     (case map_of cs k of None \<Rightarrow> None
      | Some places \<Rightarrow> Some (places @ classified_points k la lo ps))"
proof (induction ps arbitrary: cs)
  case Nil
  then show ?case
    by (auto simp: classified_points_def map_filter_simps split: option.splits)
next
  case (Cons pl ps)
  show ?case
  proof (cases "score_place la lo pl")
    case (Inl x)
    with Cons.prems show ?thesis by simp
  next
    case (Inr r)
    show ?thesis
    proof (cases r)
      case None
      with Inr Cons.prems have "collect_scores la lo ps cs = Inr cs'" by simp
      from Cons.IH [OF this] show ?thesis
        using Inr None
        by (simp add: classified_points_def map_filter_simps split: option.splits)
    next
      case (Some ce)
      obtain c e where ce: "ce = (c, e)" by (cases ce)
      with Inr Some Cons.prems
      have "collect_scores la lo ps (append_score c e cs) = Inr cs'" by simp
      from Cons.IH [OF this] show ?thesis
        using Inr Some ce
        by (simp add: classified_points_def map_filter_simps map_of_append_score
              split: option.splits)
    qed
  qed
qed

lemma category_scores_keys:
  "category_scores_of la lo ps = Inr cs \<Longrightarrow> map fst cs = map fst infrastructure_weights"
  unfolding category_scores_of_def
  by (drule collect_scores_keys) (simp add: comp_def case_prod_unfold)

lemma category_scores_distinct:
  "category_scores_of la lo ps = Inr cs \<Longrightarrow> distinct (map fst cs)"
  by (drule category_scores_keys) (simp add: infrastructure_weights_def)

lemma category_scores_entry:
  assumes "category_scores_of la lo ps = Inr cs" and "(category, places) \<in> set cs"
  shows "places = classified_points category la lo ps"
proof -
  have "map_of cs category = Some places"
    using assms category_scores_distinct by simp
  moreover have "map_of cs category =
     (case map_of (map (\<lambda>(category, w). (category, [])) infrastructure_weights) category of
        None \<Rightarrow> None
      | Some places \<Rightarrow> Some (places @ classified_points category la lo ps))"
    using assms(1) unfolding category_scores_of_def by (rule map_of_collect_scores)
  ultimately show ?thesis
    by (auto split: option.splits simp: map_of_map case_prod_unfold comp_def
          dest!: map_of_SomeD)
qed

lemma map_of_mapped:
  assumes "distinct (map fst xs)" and "(k, v) \<in> set xs"
  shows "map_of (map (\<lambda>(c, p). (c, f p)) xs) k = Some (f v)"
proof -
  have "map_of xs k = Some v" using assms by simp
  then show ?thesis by (simp add: map_of_map)
qed

text \<open>Every category the classifier returns is a key of the weight table.\<close>

lemma categorize_in_key: "categorize_in m ts = Some c \<Longrightarrow> c \<in> fst ` set m"
  by (induction m ts rule: categorize_in.induct) (auto split: if_splits)

lemma categorize_place_known:
  assumes "categorize_place ts = Some c"
  shows "c \<in> set (map fst infrastructure_weights)"
proof -
  have "c \<in> fst ` set place_type_mapping"
    using assms unfolding categorize_place_def by (rule categorize_in_key)
  then show ?thesis
    by (simp add: place_type_mapping_def infrastructure_weights_def)
qed

lemma top_sorted: "sorted (map p_distance (take 5 (sort_key p_distance places)))"
proof -
  have "sorted (take 5 (map p_distance (sort_key p_distance places)))"
    by (intro sorted_wrt_take) simp
  then show ?thesis by (simp add: take_map)
qed

lemma top_subset: "mset (take 5 (sort_key p_distance places)) \<subseteq># mset places"
proof -
  have "mset (take 5 (sort_key p_distance places)) \<subseteq># mset (sort_key p_distance places)"
    by (metis append_take_drop_id mset_append mset_subset_eq_add_left)
  then show ?thesis by simp
qed

lemma top_rest:
  "mset places - mset (take 5 (sort_key p_distance places))
     = mset (drop 5 (sort_key p_distance places))"
proof -
  have "mset places = mset (take 5 (sort_key p_distance places))
          + mset (drop 5 (sort_key p_distance places))"
    by (metis append_take_drop_id mset_append mset_sort)
  then show ?thesis by simp
qed

lemma top_closest:
  assumes "p \<in># mset places - mset (take 5 (sort_key p_distance places))"
    and "q \<in> set (take 5 (sort_key p_distance places))"
  shows "p_distance q \<le> p_distance p"
proof -
  let ?xs = "sort_key p_distance places"
  have "sorted (map p_distance (take 5 ?xs) @ map p_distance (drop 5 ?xs))"
    by (metis append_take_drop_id map_append sorted_sort_key)
  moreover have "p \<in> set (drop 5 ?xs)"
    using assms(1) by (simp add: top_rest)
  ultimately show ?thesis
    using assms(2) by (auto simp: sorted_append)
qed

lemma sum_sorted:
  fixes g :: "'a \<Rightarrow> real"
  shows "sum_list (map g (sort_key f xs)) = sum_list (map g xs)"
proof -
  have "mset (map g (sort_key f xs)) = mset (map g xs)" by simp
  then show ?thesis by (metis sum_mset_sum_list)
qed

lemma few_places_all:
  assumes "length places \<le> 5"
  shows "sum_list (map p_score (take 5 (sort_key p_distance places)))
           / real (length (take 5 (sort_key p_distance places)))
         = spec_base_score places"
  using assms by (simp add: spec_base_score_def sum_sorted)

lemma category_analysis_nonempty:
  assumes "places \<noteq> []"
  shows "fst (category_analysis places) =
           min 10 (sum_list (map p_score (take 5 (sort_key p_distance places)))
                     / real (length (take 5 (sort_key p_distance places)))
                   + min 1 (real (length places) / 3) * 0.5)"
    and "d_score (snd (category_analysis places)) = fst (category_analysis places)"
    and "d_count (snd (category_analysis places)) = length places"
    and "d_top_places (snd (category_analysis places)) = take 5 (sort_key p_distance places)"
  using assms by (simp_all add: category_analysis_def Let_def)

subsection \<open>Distances along a meridian\<close>

lemma atan2_sin_cos:
  assumes "0 \<le> x" and "x \<le> pi / 2"
  shows "atan2 (sin x) (cos x) = x"
proof (cases "x = pi / 2")
  case True
  have "atan2 1 0 = pi / 2" by (simp add: atan2_def)
  moreover have "sin x = 1" and "cos x = 0" unfolding True by simp_all
  ultimately show ?thesis unfolding True by simp
next
  case False
  with assms have r: "- (pi / 2) < x" "x < pi / 2"
    using pi_gt_zero by linarith+
  then have c: "0 < cos x" by (rule cos_gt_zero_pi)
  have "arctan (sin x / cos x) = x"
    using arctan_tan [OF r] by (simp add: tan_def)
  with c show ?thesis by (simp add: atan2_def)
qed

lemma meridian_distance:
  assumes "lat1 \<le> lat2" and "lat2 - lat1 \<le> 180"
  shows "calculate_distance lat1 lon lat2 lon = 6371000 * radians (lat2 - lat1)"
proof -
  let ?x = "radians (lat2 - lat1) / 2"
  have x0: "0 \<le> ?x" using assms(1) by (simp add: radians_def)
  have "(lat2 - lat1) * pi \<le> 180 * pi"
    using assms(2) pi_gt_zero by (intro mult_right_mono) simp_all
  then have "radians (lat2 - lat1) \<le> pi"
    by (simp add: radians_def)
  then have x1: "?x \<le> pi / 2" by simp
  have s: "0 \<le> sin ?x" using x0 x1 pi_gt_zero by (intro sin_ge_zero) linarith+
  have c: "0 \<le> cos ?x" using x0 x1 by (intro cos_ge_zero) linarith+
  have "1 - (sin ?x)\<^sup>2 = (cos ?x)\<^sup>2"
    using sin_cos_squared_add [of ?x] by linarith
  then have "calculate_distance lat1 lon lat2 lon = 6371000 * (2 * atan2 (sin ?x) (cos ?x))"
    using s c by (simp add: calculate_distance_def Let_def radians_def)
  also have "\<dots> = 6371000 * radians (lat2 - lat1)"
    using atan2_sin_cos [OF x0 x1] by simp
  finally show ?thesis .
qed


subsection \<open>The request of the scenario\<close>

lemma radians_le [simp]: "6371000 * radians a \<le> 6371000 * radians b \<longleftrightarrow> a \<le> b"
  using pi_gt_zero by (simp add: radians_def field_simps)

lemma near_score:
  assumes "0 \<le> d" and "d \<le> 1 / 200" and "800 \<le> ideal_dist_of c"
  shows "calculate_proximity_score (6371000 * radians d) c = 10"
proof -
  have "d * pi \<le> 1 / 200 * 4"
    using assms(1,2) pi_less_4 pi_gt_zero by (intro mult_mono) simp_all
  moreover have "6371000 * radians d = 6371000 / 180 * (d * pi)"
    by (simp add: radians_def)
  ultimately have "6371000 * radians d \<le> 800"
    by linarith
  then show ?thesis
    using assms(3) by (simp add: calculate_proximity_score_def Let_def)
qed

lemma far_score: "calculate_proximity_score (6371000 * radians (3 / 10)) ''healthcare'' = 0"
proof -
  have i: "ideal_dist_of ''healthcare'' = 1000"
    by (simp add: ideal_dist_of_def ideal_distances_def)
  have "6371000 * radians (3 / 10) = 6371000 * 3 / 1800 * pi"
    by (simp add: radians_def)
  then have f: "20000 \<le> 6371000 * radians (3 / 10)"
    using pi_ge_two by linarith
  then have "\<not> 6371000 * radians (3 / 10) \<le> 1000"
      "\<not> 6371000 * radians (3 / 10) \<le> 1000 * 2"
      "\<not> 6371000 * radians (3 / 10) \<le> 1000 * 4"
      "2 - 6371000 * radians (3 / 10) / (1000 * 10) \<le> 0"
    by linarith+
  then show ?thesis
    unfolding calculate_proximity_score_def Let_def i by (simp only: if_False max_def) simp
qed

lemma ideal_healthcare: "ideal_dist_of ''healthcare'' = 1000"
  and ideal_education: "ideal_dist_of ''education'' = 800"
  by (simp_all add: ideal_dist_of_def ideal_distances_def)

lemma score_place_at:
  assumes "categorize_place ts = Some c" and "c \<noteq> []"
    and "- 23.5505 \<le> lat" and "lat - (- 23.5505) \<le> 180"
  shows "score_place (- 23.5505) (- 46.6333) (place_at n ts lat)
       = Inr (Some (c, \<lparr>p_name = n,
                         p_distance = 6371000 * radians (lat - (- 23.5505)),
                         p_score = calculate_proximity_score
                                     (6371000 * radians (lat - (- 23.5505))) c,
                         p_rating = 0\<rparr>))"
  using assms meridian_distance [OF assms(3,4), of "- 46.6333"]
  by (simp add: score_place_def place_at_def Let_def)

lemma scenario_scores:
  "category_scores_of (- 23.5505) (- 46.6333) scenario_places =
     Inr [(''healthcare'',
             [scenario_entry ''H far'' (3 / 10) 0,
              scenario_entry ''H5'' (1 / 200) 10,
              scenario_entry ''H1'' (1 / 1000) 10,
              scenario_entry ''H4'' (1 / 250) 10,
              scenario_entry ''H2'' (1 / 500) 10,
              scenario_entry ''H3'' (3 / 1000) 10]),
          (''education'', [scenario_entry ''School'' (1 / 1000) 10]),
          (''transportation'', []),
          (''shopping'', []),
          (''services'', []),
          (''recreation'', []),
          (''dining'', [])]"
proof -
  have c: "categorize_place [''hospital''] = Some ''healthcare''"
      "categorize_place [''hospital'', ''health''] = Some ''healthcare''"
      "categorize_place [''pharmacy''] = Some ''healthcare''"
      "categorize_place [''doctor''] = Some ''healthcare''"
      "categorize_place [''dentist''] = Some ''healthcare''"
      "categorize_place [''school''] = Some ''education''"
    by (simp_all add: categorize_place_def place_type_mapping_def)
  have n: "score_place (- 23.5505) (- 46.6333) (place_at ''Office'' [''establishment''] (- 23.5495))
             = Inr None"
    by (simp add: score_place_def place_at_def categorize_place_def place_type_mapping_def)
  have p0: "score_place (- 23.5505) (- 46.6333) (place_at ''H far'' [''hospital''] (- 23.2505))
             = Inr (Some (''healthcare'', scenario_entry ''H far'' (3 / 10) 0))"
    using far_score by (subst score_place_at [OF c(1)]) (simp_all add: scenario_entry_def)
  have p5: "score_place (- 23.5505) (- 46.6333)
              (place_at ''H5'' [''hospital'', ''health''] (- 23.5455))
             = Inr (Some (''healthcare'', scenario_entry ''H5'' (1 / 200) 10))"
    using near_score [of "1 / 200" "''healthcare''"]
    by (subst score_place_at [OF c(2)]) (simp_all add: scenario_entry_def ideal_healthcare)
  have p1: "score_place (- 23.5505) (- 46.6333) (place_at ''H1'' [''pharmacy''] (- 23.5495))
             = Inr (Some (''healthcare'', scenario_entry ''H1'' (1 / 1000) 10))"
    using near_score [of "1 / 1000" "''healthcare''"]
    by (subst score_place_at [OF c(3)]) (simp_all add: scenario_entry_def ideal_healthcare)
  have p4: "score_place (- 23.5505) (- 46.6333) (place_at ''H4'' [''doctor''] (- 23.5465))
             = Inr (Some (''healthcare'', scenario_entry ''H4'' (1 / 250) 10))"
    using near_score [of "1 / 250" "''healthcare''"]
    by (subst score_place_at [OF c(4)]) (simp_all add: scenario_entry_def ideal_healthcare)
  have p2: "score_place (- 23.5505) (- 46.6333) (place_at ''H2'' [''dentist''] (- 23.5485))
             = Inr (Some (''healthcare'', scenario_entry ''H2'' (1 / 500) 10))"
    using near_score [of "1 / 500" "''healthcare''"]
    by (subst score_place_at [OF c(5)]) (simp_all add: scenario_entry_def ideal_healthcare)
  have p3: "score_place (- 23.5505) (- 46.6333) (place_at ''H3'' [''hospital''] (- 23.5475))
             = Inr (Some (''healthcare'', scenario_entry ''H3'' (3 / 1000) 10))"
    using near_score [of "3 / 1000" "''healthcare''"]
    by (subst score_place_at [OF c(1)]) (simp_all add: scenario_entry_def ideal_healthcare)
  have ps: "score_place (- 23.5505) (- 46.6333) (place_at ''School'' [''school''] (- 23.5495))
             = Inr (Some (''education'', scenario_entry ''School'' (1 / 1000) 10))"
    using near_score [of "1 / 1000" "''education''"]
    by (subst score_place_at [OF c(6)]) (simp_all add: scenario_entry_def ideal_education)
  show ?thesis
    unfolding category_scores_of_def scenario_places_def collect_scores.simps
      n p0 p5 p1 p4 p2 p3 ps
    by (simp add: infrastructure_weights_def append_score_def)
qed

lemma scenario_healthcare:
  "category_analysis
     [scenario_entry ''H far'' (3 / 10) 0,
      scenario_entry ''H5'' (1 / 200) 10,
      scenario_entry ''H1'' (1 / 1000) 10,
      scenario_entry ''H4'' (1 / 250) 10,
      scenario_entry ''H2'' (1 / 500) 10,
      scenario_entry ''H3'' (3 / 1000) 10]
   = (10, \<lparr>d_score = 10, d_count = 6,
            d_top_places =
              [scenario_entry ''H1'' (1 / 1000) 10,
               scenario_entry ''H2'' (1 / 500) 10,
               scenario_entry ''H3'' (3 / 1000) 10,
               scenario_entry ''H4'' (1 / 250) 10,
               scenario_entry ''H5'' (1 / 200) 10],
            d_average_distance = Finite (6371000 * radians (3 / 1000))\<rparr>)"
  by (simp add: category_analysis_def scenario_entry_def Let_def radians_def)


lemma analyze_ok:
  assumes "category_scores_of la lo ps = Inr cs"
  shows "analyze_infrastructure la lo (Inr ps) =
     \<lparr>an_category_scores =
        map (\<lambda>(category, places). (category, fst (category_analysis places))) cs,
      an_detailed_analysis =
        Some (map (\<lambda>(category, places). (category, snd (category_analysis places))) cs),
      an_total_places_analyzed = sum_list (map (\<lambda>(category, places). length places) cs),
      an_note = None\<rparr>"
  by (simp add: analyze_infrastructure_def assms)

lemma scenario_analysis:
  "analyze_infrastructure (- 23.5505) (- 46.6333) (Inr scenario_places) =
     \<lparr>an_category_scores =
        map (\<lambda>(category, places). (category, fst (category_analysis places)))
          [(''healthcare'',
              [scenario_entry ''H far'' (3 / 10) 0,
               scenario_entry ''H5'' (1 / 200) 10,
               scenario_entry ''H1'' (1 / 1000) 10,
               scenario_entry ''H4'' (1 / 250) 10,
               scenario_entry ''H2'' (1 / 500) 10,
               scenario_entry ''H3'' (3 / 1000) 10]),
           (''education'', [scenario_entry ''School'' (1 / 1000) 10]),
           (''transportation'', []),
           (''shopping'', []),
           (''services'', []),
           (''recreation'', []),
           (''dining'', [])],
      an_detailed_analysis =
        Some (map (\<lambda>(category, places). (category, snd (category_analysis places)))
          [(''healthcare'',
              [scenario_entry ''H far'' (3 / 10) 0,
               scenario_entry ''H5'' (1 / 200) 10,
               scenario_entry ''H1'' (1 / 1000) 10,
               scenario_entry ''H4'' (1 / 250) 10,
               scenario_entry ''H2'' (1 / 500) 10,
               scenario_entry ''H3'' (3 / 1000) 10]),
           (''education'', [scenario_entry ''School'' (1 / 1000) 10]),
           (''transportation'', []),
           (''shopping'', []),
           (''services'', []),
           (''recreation'', []),
           (''dining'', [])]),
      an_total_places_analyzed = 7,
      an_note = None\<rparr>"
  unfolding analyze_ok [OF scenario_scores] by (simp add: scenario_entry_def)

text \<open>
  The request of the scenario, through the whole analyzer: healthcare has six
  points, five within 560 m (proximity score 10 each) and one about 33 km away
  (score 0). The code averages the five closest and scores the category 10; the
  average over all six is 25/3, which would score it 53/6. And when the call of the
  provider raises, healthcare scores 8.0 with no point at all and no top places.
\<close>

theorem base_score_all_points_counterexample:
  "map_of (an_category_scores
             (analyze_infrastructure (- 23.5505) (- 46.6333) (Inr scenario_places)))
      ''healthcare'' = Some 10
   \<and> classified_points ''healthcare'' (- 23.5505) (- 46.6333) scenario_places
       = [scenario_entry ''H far'' (3 / 10) 0,
          scenario_entry ''H5'' (1 / 200) 10,
          scenario_entry ''H1'' (1 / 1000) 10,
          scenario_entry ''H4'' (1 / 250) 10,
          scenario_entry ''H2'' (1 / 500) 10,
          scenario_entry ''H3'' (3 / 1000) 10]
   \<and> spec_base_score
        [scenario_entry ''H far'' (3 / 10) 0,
         scenario_entry ''H5'' (1 / 200) 10,
         scenario_entry ''H1'' (1 / 1000) 10,
         scenario_entry ''H4'' (1 / 250) 10,
         scenario_entry ''H2'' (1 / 500) 10,
         scenario_entry ''H3'' (3 / 1000) 10] = 25 / 3
   \<and> spec_category_score
        [scenario_entry ''H far'' (3 / 10) 0,
         scenario_entry ''H5'' (1 / 200) 10,
         scenario_entry ''H1'' (1 / 1000) 10,
         scenario_entry ''H4'' (1 / 250) 10,
         scenario_entry ''H2'' (1 / 500) 10,
         scenario_entry ''H3'' (3 / 1000) 10] = 53 / 6
   \<and> map_of (an_category_scores
               (analyze_infrastructure (- 23.5505) (- 46.6333) (Inl AsyncioTimeoutError)))
        ''healthcare'' = Some 8
   \<and> an_detailed_analysis
        (analyze_infrastructure (- 23.5505) (- 46.6333) (Inl AsyncioTimeoutError)) = None"
proof (intro conjI)
  show "map_of (an_category_scores
             (analyze_infrastructure (- 23.5505) (- 46.6333) (Inr scenario_places)))
      ''healthcare'' = Some 10"
    unfolding scenario_analysis by (simp add: scenario_healthcare)
  have "(''healthcare'',
          [scenario_entry ''H far'' (3 / 10) 0,
           scenario_entry ''H5'' (1 / 200) 10,
           scenario_entry ''H1'' (1 / 1000) 10,
           scenario_entry ''H4'' (1 / 250) 10,
           scenario_entry ''H2'' (1 / 500) 10,
           scenario_entry ''H3'' (3 / 1000) 10])
        \<in> set [(''healthcare'',
              [scenario_entry ''H far'' (3 / 10) 0,
               scenario_entry ''H5'' (1 / 200) 10,
               scenario_entry ''H1'' (1 / 1000) 10,
               scenario_entry ''H4'' (1 / 250) 10,
               scenario_entry ''H2'' (1 / 500) 10,
               scenario_entry ''H3'' (3 / 1000) 10]),
           (''education'', [scenario_entry ''School'' (1 / 1000) 10]),
           (''transportation'', []),
           (''shopping'', []),
           (''services'', []),
           (''recreation'', []),
           (''dining'', [])]"
    by simp
  with scenario_scores
  show "classified_points ''healthcare'' (- 23.5505) (- 46.6333) scenario_places
       = [scenario_entry ''H far'' (3 / 10) 0,
          scenario_entry ''H5'' (1 / 200) 10,
          scenario_entry ''H1'' (1 / 1000) 10,
          scenario_entry ''H4'' (1 / 250) 10,
          scenario_entry ''H2'' (1 / 500) 10,
          scenario_entry ''H3'' (3 / 1000) 10]"
    by (rule category_scores_entry [symmetric])
  show "spec_base_score
        [scenario_entry ''H far'' (3 / 10) 0,
         scenario_entry ''H5'' (1 / 200) 10,
         scenario_entry ''H1'' (1 / 1000) 10,
         scenario_entry ''H4'' (1 / 250) 10,
         scenario_entry ''H2'' (1 / 500) 10,
         scenario_entry ''H3'' (3 / 1000) 10] = 25 / 3"
    by (simp add: spec_base_score_def scenario_entry_def)
  show "spec_category_score
        [scenario_entry ''H far'' (3 / 10) 0,
         scenario_entry ''H5'' (1 / 200) 10,
         scenario_entry ''H1'' (1 / 1000) 10,
         scenario_entry ''H4'' (1 / 250) 10,
         scenario_entry ''H2'' (1 / 500) 10,
         scenario_entry ''H3'' (3 / 1000) 10] = 53 / 6"
    by (simp add: spec_category_score_def spec_base_score_def scenario_entry_def)
  show "map_of (an_category_scores
               (analyze_infrastructure (- 23.5505) (- 46.6333) (Inl AsyncioTimeoutError)))
        ''healthcare'' = Some 8"
    by (simp add: analyze_infrastructure_def mock_analysis_def)
  show "an_detailed_analysis
        (analyze_infrastructure (- 23.5505) (- 46.6333) (Inl AsyncioTimeoutError)) = None"
    by (simp add: analyze_infrastructure_def mock_analysis_def)
qed

text \<open>
  C1 (amended): for every geospatial scoring request whose provider call and scoring
  loop complete without raising, and every category that has classified points, the
  points of the category are grouped in request order, the \<open>top_places\<close> field holds
  the closest of them in ascending order of distance, at most five, and the
  category's score is \<open>min(10, base + bonus)\<close> where the base is the average proximity
  score of those top places (the five closest), not of all the points of the
  category; the two agree when the category has at most five points. When the
  provider call or the loop raises, the request returns the analyzer's fixed
  simulated category scores, with no top places.
\<close>

theorem category_score_from_top_places:
  "(category_scores_of latitude longitude nearby_places = Inr category_scores
      \<and> (category, places) \<in> set category_scores \<and> places \<noteq> [] \<longrightarrow>
        places = classified_points category latitude longitude nearby_places
      \<and> (\<exists>detailed.
            an_detailed_analysis (analyze_infrastructure latitude longitude (Inr nearby_places))
              = Some detailed
          \<and> map_of detailed category = Some (snd (category_analysis places)))
      \<and> map_of (an_category_scores
                  (analyze_infrastructure latitude longitude (Inr nearby_places))) category
          = Some (fst (category_analysis places))
      \<and> (let top = d_top_places (snd (category_analysis places)) in
           sorted (map p_distance top)
         \<and> length top = min 5 (length places)
         \<and> mset top \<subseteq># mset places
         \<and> (\<forall>p \<in># mset places - mset top. \<forall>q \<in> set top. p_distance q \<le> p_distance p)
         \<and> fst (category_analysis places)
             = min 10 (sum_list (map p_score top) / real (length top)
                       + min 1 (real (length places) / 3) * 0.5)
         \<and> d_score (snd (category_analysis places)) = fst (category_analysis places)
         \<and> (length places \<le> 5 \<longrightarrow>
              fst (category_analysis places) = spec_category_score places)))
   \<and> (nearby = Inl e
        \<or> (\<exists>ps e'. nearby = Inr ps \<and> category_scores_of latitude longitude ps = Inl e') \<longrightarrow>
       analyze_infrastructure latitude longitude nearby = mock_analysis)"
proof (intro conjI impI)
  assume a: "category_scores_of latitude longitude nearby_places = Inr category_scores
      \<and> (category, places) \<in> set category_scores \<and> places \<noteq> []"
  then have ok: "category_scores_of latitude longitude nearby_places = Inr category_scores"
    and mem: "(category, places) \<in> set category_scores" and ne: "places \<noteq> []"
    by simp_all
  let ?top = "take 5 (sort_key p_distance places)"
  have top: "d_top_places (snd (category_analysis places)) = ?top"
    using ne by (rule category_analysis_nonempty)
  have sc: "fst (category_analysis places)
            = min 10 (sum_list (map p_score ?top) / real (length ?top)
                      + min 1 (real (length places) / 3) * 0.5)"
    using ne by (rule category_analysis_nonempty)
  have ds: "d_score (snd (category_analysis places)) = fst (category_analysis places)"
    using ne by (rule category_analysis_nonempty)
  have few: "length places \<le> 5 \<longrightarrow> fst (category_analysis places) = spec_category_score places"
  proof
    assume "length places \<le> 5"
    then have "sum_list (map p_score ?top) / real (length ?top) = spec_base_score places"
      by (rule few_places_all)
    then show "fst (category_analysis places) = spec_category_score places"
      unfolding sc spec_category_score_def by simp
  qed
  have cl: "\<forall>p \<in># mset places - mset ?top. \<forall>q \<in> set ?top. p_distance q \<le> p_distance p"
    using top_closest by blast
  have len: "length ?top = min 5 (length places)" by simp
  have di: "distinct (map fst category_scores)"
    using ok by (rule category_scores_distinct)
  have an: "analyze_infrastructure latitude longitude (Inr nearby_places) =
     \<lparr>an_category_scores =
        map (\<lambda>(category, places). (category, fst (category_analysis places))) category_scores,
      an_detailed_analysis =
        Some (map (\<lambda>(category, places). (category, snd (category_analysis places)))
                category_scores),
      an_total_places_analyzed =
        sum_list (map (\<lambda>(category, places). length places) category_scores),
      an_note = None\<rparr>"
    by (simp add: analyze_infrastructure_def ok)
  show "places = classified_points category latitude longitude nearby_places"
    using ok mem by (rule category_scores_entry)
  show "\<exists>detailed.
            an_detailed_analysis (analyze_infrastructure latitude longitude (Inr nearby_places))
              = Some detailed
          \<and> map_of detailed category = Some (snd (category_analysis places))"
    unfolding an by (simp add: map_of_mapped [OF di mem])
  show "map_of (an_category_scores
                  (analyze_infrastructure latitude longitude (Inr nearby_places))) category
          = Some (fst (category_analysis places))"
    unfolding an by (simp add: map_of_mapped [OF di mem])
  show "let top = d_top_places (snd (category_analysis places)) in
           sorted (map p_distance top)
         \<and> length top = min 5 (length places)
         \<and> mset top \<subseteq># mset places
         \<and> (\<forall>p \<in># mset places - mset top. \<forall>q \<in> set top. p_distance q \<le> p_distance p)
         \<and> fst (category_analysis places)
             = min 10 (sum_list (map p_score top) / real (length top)
                       + min 1 (real (length places) / 3) * 0.5)
         \<and> d_score (snd (category_analysis places)) = fst (category_analysis places)
         \<and> (length places \<le> 5 \<longrightarrow>
              fst (category_analysis places) = spec_category_score places)"
    unfolding Let_def top
    using top_sorted [of places] len top_subset [of places] cl sc ds few
    by (intro conjI)
next
  assume "nearby = Inl e
        \<or> (\<exists>ps e'. nearby = Inr ps \<and> category_scores_of latitude longitude ps = Inl e')"
  then show "analyze_infrastructure latitude longitude nearby = mock_analysis"
    by (auto simp: analyze_infrastructure_def)
qed

text \<open>
  The request of the scenario: its healthcare points are the six hospitals in the
  order of the request, the top places are the five closest in ascending order, and
  the category scores 10. A request whose provider call times out gets the simulated
  scores.
\<close>

theorem category_score_from_top_places_witness:
  "category_scores_of (- 23.5505) (- 46.6333) scenario_places =
     Inr [(''healthcare'',
             [scenario_entry ''H far'' (3 / 10) 0,
              scenario_entry ''H5'' (1 / 200) 10,
              scenario_entry ''H1'' (1 / 1000) 10,
              scenario_entry ''H4'' (1 / 250) 10,
              scenario_entry ''H2'' (1 / 500) 10,
              scenario_entry ''H3'' (3 / 1000) 10]),
          (''education'', [scenario_entry ''School'' (1 / 1000) 10]),
          (''transportation'', []),
          (''shopping'', []),
          (''services'', []),
          (''recreation'', []),
          (''dining'', [])]
   \<and> [scenario_entry ''H far'' (3 / 10) 0,
       scenario_entry ''H5'' (1 / 200) 10,
       scenario_entry ''H1'' (1 / 1000) 10,
       scenario_entry ''H4'' (1 / 250) 10,
       scenario_entry ''H2'' (1 / 500) 10,
       scenario_entry ''H3'' (3 / 1000) 10] \<noteq> []
   \<and> [scenario_entry ''H far'' (3 / 10) 0,
       scenario_entry ''H5'' (1 / 200) 10,
       scenario_entry ''H1'' (1 / 1000) 10,
       scenario_entry ''H4'' (1 / 250) 10,
       scenario_entry ''H2'' (1 / 500) 10,
       scenario_entry ''H3'' (3 / 1000) 10]
       = classified_points ''healthcare'' (- 23.5505) (- 46.6333) scenario_places
   \<and> d_top_places (snd (category_analysis
        [scenario_entry ''H far'' (3 / 10) 0,
         scenario_entry ''H5'' (1 / 200) 10,
         scenario_entry ''H1'' (1 / 1000) 10,
         scenario_entry ''H4'' (1 / 250) 10,
         scenario_entry ''H2'' (1 / 500) 10,
         scenario_entry ''H3'' (3 / 1000) 10]))
       = [scenario_entry ''H1'' (1 / 1000) 10,
          scenario_entry ''H2'' (1 / 500) 10,
          scenario_entry ''H3'' (3 / 1000) 10,
          scenario_entry ''H4'' (1 / 250) 10,
          scenario_entry ''H5'' (1 / 200) 10]
   \<and> map_of (an_category_scores
               (analyze_infrastructure (- 23.5505) (- 46.6333) (Inr scenario_places)))
        ''healthcare'' = Some 10
   \<and> analyze_infrastructure (- 23.5505) (- 46.6333) (Inl AsyncioTimeoutError) = mock_analysis
   \<and> category_scores_of (- 23.5505) (- 46.6333)
        [\<lparr>pl_place_id = None, pl_name = Some ''Hospital'', pl_formatted_address = None,
          pl_types = Some [''hospital''], pl_lat = Some NotANumber, pl_lng = None,
          pl_rating = None, pl_vicinity = None\<rparr>] = Inl TypeError
   \<and> analyze_infrastructure (- 23.5505) (- 46.6333)
        (Inr [\<lparr>pl_place_id = None, pl_name = Some ''Hospital'', pl_formatted_address = None,
               pl_types = Some [''hospital''], pl_lat = Some NotANumber, pl_lng = None,
               pl_rating = None, pl_vicinity = None\<rparr>]) = mock_analysis"
proof -
  let ?bad = "[\<lparr>pl_place_id = None, pl_name = Some ''Hospital'', pl_formatted_address = None,
          pl_types = Some [''hospital''], pl_lat = Some NotANumber, pl_lng = None,
          pl_rating = None, pl_vicinity = None\<rparr>]"
  have bad: "category_scores_of (- 23.5505) (- 46.6333) ?bad = Inl TypeError"
    by (simp add: category_scores_of_def score_place_def categorize_place_def
          place_type_mapping_def)
  note B = category_score_from_top_places
    [of "- 23.5505" "- 46.6333" scenario_places "[]" "''healthcare''" "[]"
        "Inr ?bad" AsyncioTimeoutError]
  from B have B2: "Inr ?bad = (Inl AsyncioTimeoutError :: py_exception + place list)
        \<or> (\<exists>ps e'. (Inr ?bad :: py_exception + place list) = Inr ps
              \<and> category_scores_of (- 23.5505) (- 46.6333) ps = Inl e') \<longrightarrow>
       analyze_infrastructure (- 23.5505) (- 46.6333) (Inr ?bad) = mock_analysis"
    by (rule conjunct2)
  have mb: "analyze_infrastructure (- 23.5505) (- 46.6333) (Inr ?bad) = mock_analysis"
    using B2 bad by blast
  let ?six = "[scenario_entry ''H far'' (3 / 10) 0,
       scenario_entry ''H5'' (1 / 200) 10,
       scenario_entry ''H1'' (1 / 1000) 10,
       scenario_entry ''H4'' (1 / 250) 10,
       scenario_entry ''H2'' (1 / 500) 10,
       scenario_entry ''H3'' (3 / 1000) 10]"
  let ?cs = "[(''healthcare'', ?six),
          (''education'', [scenario_entry ''School'' (1 / 1000) 10]),
          (''transportation'', []),
          (''shopping'', []),
          (''services'', []),
          (''recreation'', []),
          (''dining'', [])]"
  have h: "category_scores_of (- 23.5505) (- 46.6333) scenario_places = Inr ?cs
      \<and> (''healthcare'', ?six) \<in> set ?cs \<and> ?six \<noteq> []"
    by (intro conjI, rule scenario_scores) simp_all
  note T = category_score_from_top_places
    [of "- 23.5505" "- 46.6333" scenario_places ?cs "''healthcare''" ?six
        "Inl AsyncioTimeoutError" AsyncioTimeoutError]
  from T have T1: "category_scores_of (- 23.5505) (- 46.6333) scenario_places = Inr ?cs
      \<and> (''healthcare'', ?six) \<in> set ?cs \<and> ?six \<noteq> [] \<longrightarrow>
        ?six = classified_points ''healthcare'' (- 23.5505) (- 46.6333) scenario_places
      \<and> (\<exists>detailed.
            an_detailed_analysis
              (analyze_infrastructure (- 23.5505) (- 46.6333) (Inr scenario_places))
              = Some detailed
          \<and> map_of detailed ''healthcare'' = Some (snd (category_analysis ?six)))
      \<and> map_of (an_category_scores
                  (analyze_infrastructure (- 23.5505) (- 46.6333) (Inr scenario_places)))
            ''healthcare''
          = Some (fst (category_analysis ?six))
      \<and> (let top = d_top_places (snd (category_analysis ?six)) in
           sorted (map p_distance top)
         \<and> length top = min 5 (length ?six)
         \<and> mset top \<subseteq># mset ?six
         \<and> (\<forall>p \<in># mset ?six - mset top. \<forall>q \<in> set top. p_distance q \<le> p_distance p)
         \<and> fst (category_analysis ?six)
             = min 10 (sum_list (map p_score top) / real (length top)
                       + min 1 (real (length ?six) / 3) * 0.5)
         \<and> d_score (snd (category_analysis ?six)) = fst (category_analysis ?six)
         \<and> (length ?six \<le> 5 \<longrightarrow>
              fst (category_analysis ?six) = spec_category_score ?six))"
    by (rule conjunct1)
  from T have T2: "Inl AsyncioTimeoutError = (Inl AsyncioTimeoutError :: py_exception + place list)
        \<or> (\<exists>ps e'. (Inl AsyncioTimeoutError :: py_exception + place list) = Inr ps
              \<and> category_scores_of (- 23.5505) (- 46.6333) ps = Inl e') \<longrightarrow>
       analyze_infrastructure (- 23.5505) (- 46.6333) (Inl AsyncioTimeoutError) = mock_analysis"
    by (rule conjunct2)
  from T1 h have c: "?six = classified_points ''healthcare'' (- 23.5505) (- 46.6333) scenario_places"
    and s: "map_of (an_category_scores
                  (analyze_infrastructure (- 23.5505) (- 46.6333) (Inr scenario_places)))
            ''healthcare''
          = Some (fst (category_analysis ?six))"
    by blast+
  have m: "analyze_infrastructure (- 23.5505) (- 46.6333) (Inl AsyncioTimeoutError) = mock_analysis"
    using T2 by blast
  have t: "d_top_places (snd (category_analysis ?six))
       = [scenario_entry ''H1'' (1 / 1000) 10,
          scenario_entry ''H2'' (1 / 500) 10,
          scenario_entry ''H3'' (3 / 1000) 10,
          scenario_entry ''H4'' (1 / 250) 10,
          scenario_entry ''H5'' (1 / 200) 10]"
    and f: "fst (category_analysis ?six) = 10"
    by (simp_all add: scenario_healthcare)
  from s f have s': "map_of (an_category_scores
               (analyze_infrastructure (- 23.5505) (- 46.6333) (Inr scenario_places)))
        ''healthcare'' = Some 10"
    by (rule_tac trans) simp_all
  from h have h1: "category_scores_of (- 23.5505) (- 46.6333) scenario_places = Inr ?cs"
    and h3: "?six \<noteq> []"
    by (rule conjunct1, rule conjunct2 [THEN conjunct2])
  from h1 h3 c t s' m bad mb show ?thesis by (intro conjI)
qed

section \<open>The cache service\<close>

lemma str_nat_small: "n < 10 \<Longrightarrow> str_nat n = [digit_char n]"
  by (simp add: str_nat.simps)

lemma str_nat_big: "10 \<le> n \<Longrightarrow> str_nat n = str_nat (n div 10) @ [digit_char (n mod 10)]"
  by (subst str_nat.simps) simp

lemma digit_chars:
  "digit_char 0 = CHR ''0''" "digit_char 1 = CHR ''1''" "digit_char 2 = CHR ''2''"
  "digit_char 3 = CHR ''3''" "digit_char 4 = CHR ''4''" "digit_char 5 = CHR ''5''"
  "digit_char 6 = CHR ''6''" "digit_char 7 = CHR ''7''" "digit_char 8 = CHR ''8''"
  "digit_char 9 = CHR ''9''"
  by (simp_all add: digit_char_def)

lemmas str_eval = str_int_def str_nat_small str_nat_big digit_chars

lemma glob_star_skip: "glob_match ps s \<Longrightarrow> glob_match (CHR ''*'' # ps) (pre @ s)"
proof (induction pre)
  case Nil
  then show ?case by (cases s) simp_all
next
  case (Cons a pre)
  then show ?case by simp
qed

lemma glob_literal:
  "CHR ''*'' \<notin> set lit \<Longrightarrow> glob_match (lit @ ps) (lit @ s) = glob_match ps s"
  by (induction lit) auto

lemma glob_star_end: "glob_match ''*'' s"
  by (induction s) simp_all

lemma digit_char_no_star: "d < 10 \<Longrightarrow> digit_char d \<noteq> CHR ''*''"
proof -
  assume "d < 10"
  then have "d \<in> {0, 1, 2, 3, 4, 5, 6, 7, 8, 9}" by auto
  then show ?thesis using digit_chars by (auto simp del: One_nat_def simp: One_nat_def [symmetric])
qed

lemma str_nat_no_star: "CHR ''*'' \<notin> set (str_nat n)"
proof (induction n rule: str_nat.induct)
  case (1 n)
  show ?case
  proof (cases "n < 10")
    case True
    then show ?thesis using digit_char_no_star [of n] by (simp add: str_nat_small)
  next
    case False
    then have "str_nat n = str_nat (n div 10) @ [digit_char (n mod 10)]"
      by (simp add: str_nat_big)
    moreover have "digit_char (n mod 10) \<noteq> CHR ''*''"
      by (rule digit_char_no_star) simp
    ultimately show ?thesis using 1 False by auto
  qed
qed

lemma str_int_no_star: "CHR ''*'' \<notin> set (str_int i)"
  by (simp add: str_int_def str_nat_no_star)

lemma own_key_matches:
  "glob_match (''ibge:*:'' @ str_int i @ ''*'') (generate_key ns i additional)"
proof -
  have "\<exists>rest. generate_key ns i additional = ''ibge:'' @ ns @ ('':'' @ str_int i) @ rest"
    by (cases "additional = []") (simp_all add: generate_key_def Let_def)
  then obtain rest where
    key: "generate_key ns i additional = ''ibge:'' @ ns @ ('':'' @ str_int i) @ rest"
    by blast
  have "glob_match (('':'' @ str_int i) @ ''*'') (('':'' @ str_int i) @ rest)"
    using str_int_no_star [of i] by (subst glob_literal) (simp_all add: glob_star_end)
  then have "glob_match (CHR ''*'' # ('':'' @ str_int i) @ ''*'') (ns @ ('':'' @ str_int i) @ rest)"
    by (rule glob_star_skip)
  then have "glob_match (''ibge:'' @ (CHR ''*'' # ('':'' @ str_int i) @ ''*''))
               (''ibge:'' @ (ns @ ('':'' @ str_int i) @ rest))"
    by (subst glob_literal) simp_all
  then show ?thesis unfolding key by simp
qed

text \<open>
  Clearing a municipality removes every entry stored under that id, whatever the key
  type and the additional parameter.
\<close>

lemma clear_removes_own_entries:
  assumes "enabled cache" and "redis_client cache = Some r" and "reachable r"
    and "now \<le> now'"
  shows "cache_get (snd (clear_municipality_cache cache now i)) now' ns i additional = None"
proof -
  let ?key = "generate_key ns i additional"
  let ?pat = "''ibge:*:'' @ str_int i @ ''*''"
  let ?keys = "map fst (filter (\<lambda>(k, v, expires_at). now < expires_at \<and> glob_match ?pat k)
                          (entries r))"
  have gone: "\<And>v e. (?key, v, e) \<in> set (entries r) \<Longrightarrow> ?key \<notin> set ?keys \<Longrightarrow> \<not> now' < e"
  proof -
    fix v e
    assume m: "(?key, v, e) \<in> set (entries r)" and n: "?key \<notin> set ?keys"
    have "\<not> (now < e \<and> glob_match ?pat ?key)"
    proof
      assume "now < e \<and> glob_match ?pat ?key"
      with m have "(?key, v, e) \<in> set (filter (\<lambda>(k, v, expires_at).
                       now < expires_at \<and> glob_match ?pat k) (entries r))"
        by simp
      then have "?key \<in> set ?keys" by force
      with n show False by simp
    qed
    then have "\<not> now < e" using own_key_matches by simp
    then show "\<not> now' < e" using assms(4) by simp
  qed
  show ?thesis
  proof (cases "?keys = []")
    case True
    then have same: "snd (clear_municipality_cache cache now i) = cache"
      using assms by (simp add: clear_municipality_cache_def redis_keys_def Let_def)
    show ?thesis
    proof (cases "map_of (entries r) ?key")
      case None
      then show ?thesis
        using assms by (simp add: same cache_get_def redis_get_def Let_def)
    next
      case (Some ve)
      obtain v e where ve: "ve = (v, e)" by (cases ve)
      have "(?key, v, e) \<in> set (entries r)"
        using Some ve by (auto dest: map_of_SomeD)
      moreover have "?key \<notin> set ?keys" unfolding True by simp
      ultimately have "\<not> now' < e" by (rule gone)
      then show ?thesis
        using assms Some ve by (simp add: same cache_get_def redis_get_def Let_def)
    qed
  next
    case False
    then have new: "snd (clear_municipality_cache cache now i)
        = cache\<lparr>redis_client := Some (r\<lparr>entries :=
            filter (\<lambda>(k, v, expires_at). k \<notin> set ?keys) (entries r)\<rparr>)\<rparr>"
      using assms
      by (simp add: clear_municipality_cache_def redis_keys_def redis_delete_def Let_def)
    let ?es = "filter (\<lambda>(k, v, expires_at). k \<notin> set ?keys) (entries r)"
    show ?thesis
    proof (cases "map_of ?es ?key")
      case None
      then show ?thesis
        using assms by (simp add: new cache_get_def redis_get_def Let_def)
    next
      case (Some ve)
      obtain v e where ve: "ve = (v, e)" by (cases ve)
      have "(?key, ve) \<in> set ?es"
        using Some by (rule map_of_SomeD)
      then have "(?key, v, e) \<in> set ?es"
        unfolding ve .
      then have "(?key, v, e) \<in> set (entries r) \<and> ?key \<notin> set ?keys"
        by (simp only: set_filter mem_Collect_eq case_prod_conv simp_thms)
      then have "(?key, v, e) \<in> set (entries r)" and "?key \<notin> set ?keys"
        by (rule conjunct1, rule conjunct2)
      then have "\<not> now' < e" by (rule gone)
      then show ?thesis
        using assms Some ve by (simp add: new cache_get_def redis_get_def Let_def)
    qed
  qed
qed

text \<open>
  C6: \<open>invalidateEntity(id)\<close> should delete the entries of that id and leave the
  entries of every other id unchanged. The code deletes the keys that match
  \<^verbatim>\<open>ibge:*:{id}*\<close>, and the trailing \<^verbatim>\<open>*\<close> also matches further digits: clearing
  id 33 deletes the entries of municipality 3302205 as well.
\<close>

theorem clear_removes_longer_ids:
  "generate_key ''population'' 33 [] = ''ibge:population:33''
   \<and> generate_key ''population'' 3302205 [] = ''ibge:population:3302205''
   \<and> generate_key ''area'' 3302205 [] = ''ibge:area:3302205''
   \<and> cache_get
        \<lparr>enabled = True, redis_client = Some \<lparr>reachable = True, entries =
           [(''ibge:population:33'', [(''population'', JInt 1)], 1000),
            (''ibge:population:3302205'', [(''population'', JInt 2)], 1000),
            (''ibge:area:3302205'', [(''area_km2'', JInt 3)], 1000)]\<rparr>\<rparr>
        0 ''population'' 3302205 [] = Some [(''population'', JInt 2)]
   \<and> clear_municipality_cache
        \<lparr>enabled = True, redis_client = Some \<lparr>reachable = True, entries =
           [(''ibge:population:33'', [(''population'', JInt 1)], 1000),
            (''ibge:population:3302205'', [(''population'', JInt 2)], 1000),
            (''ibge:area:3302205'', [(''area_km2'', JInt 3)], 1000)]\<rparr>\<rparr>
        0 33
       = (3, \<lparr>enabled = True, redis_client = Some \<lparr>reachable = True, entries = []\<rparr>\<rparr>)
   \<and> cache_get
        (snd (clear_municipality_cache
           \<lparr>enabled = True, redis_client = Some \<lparr>reachable = True, entries =
              [(''ibge:population:33'', [(''population'', JInt 1)], 1000),
               (''ibge:population:3302205'', [(''population'', JInt 2)], 1000),
               (''ibge:area:3302205'', [(''area_km2'', JInt 3)], 1000)]\<rparr>\<rparr>
           0 33))
        0 ''population'' 3302205 [] = None"
  by (simp add: cache_get_def clear_municipality_cache_def redis_get_def redis_keys_def
        redis_delete_def generate_key_def str_eval Let_def)








section \<open>The composite municipality record\<close>

lemma generate_key_inj_type:
  "generate_key kt i [] = generate_key kt' i [] \<Longrightarrow> kt = kt'"
  by (simp add: generate_key_def)

lemma cache_get_after_set_other:
  assumes "kt \<noteq> kt'"
  shows "cache_get (snd (cache_set cache now stamp kt i data [] custom)) now' kt' i []
       = cache_get cache now' kt' i []"
proof -
  have k: "generate_key kt i [] \<noteq> generate_key kt' i []"
    using assms generate_key_inj_type by blast
  show ?thesis
    using k
    by (auto simp: cache_set_def cache_get_def redis_setex_def redis_get_def Let_def update_conv'
          split: option.splits sum.splits if_splits)
qed

lemma fetch_indicator_cache:
  "kt \<noteq> kt' \<Longrightarrow>
   cache_get (snd (fetch_indicator kt svc cache now stamp reply i)) now' kt' i []
     = cache_get cache now' kt' i []"
  by (auto simp: fetch_indicator_def cache_get_after_set_other split: reply.splits option.splits)

lemma get_indicator_data_cache:
  "kt \<noteq> kt' \<Longrightarrow>
   cache_get (snd (get_indicator_data kt svc cache now stamp reply i)) now' kt' i []
     = cache_get cache now' kt' i []"
  by (auto simp: get_indicator_data_def fetch_indicator_cache Let_def split: option.splits)

lemma get_indicator_data_miss:
  assumes "cache_miss svc cache now kt i"
  shows "fst (get_indicator_data kt svc cache now stamp reply i)
           = (case reply of Delivered x \<Rightarrow> x | _ \<Rightarrow> None)"
  using assms
  by (auto simp: get_indicator_data_def fetch_indicator_def cache_miss_def Let_def
        split: option.splits reply.splits)

lemma cache_miss_preserved:
  "kt \<noteq> kt' \<Longrightarrow>
   cache_miss svc (snd (get_indicator_data kt svc cache now stamp reply i)) now kt' i
     = cache_miss svc cache now kt' i"
  by (simp add: cache_miss_def get_indicator_data_cache)

lemma fetch_timeout_as_not_found:
  "fetch_indicator kt svc cache now stamp TimeoutException i
     = fetch_indicator kt svc cache now stamp (Delivered None) i"
  by (simp add: fetch_indicator_def)

lemma timeout_as_not_found:
  "get_indicator_data kt svc cache now stamp TimeoutException i
     = get_indicator_data kt svc cache now stamp (Delivered None) i"
  by (simp add: get_indicator_data_def fetch_timeout_as_not_found split: option.splits)

lemma complete_fields:
  "\<exists>r cache'. get_complete_municipality_data svc cache now stamp rs i = (Inr r, cache')
     \<and> m_municipality_id r = i
     \<and> m_basic_info r = get_municipality_info (r_basic_info rs) i
     \<and> (cache_miss svc cache now ''population'' i \<longrightarrow>
          m_population r = (case r_population rs of Delivered x \<Rightarrow> x | _ \<Rightarrow> None))
     \<and> (cache_miss svc cache now ''area'' i \<longrightarrow>
          m_area r = (case r_area rs of Delivered x \<Rightarrow> x | _ \<Rightarrow> None))
     \<and> (cache_miss svc cache now ''density'' i \<longrightarrow>
          m_density r = (case r_density rs of Delivered x \<Rightarrow> x | _ \<Rightarrow> None))
     \<and> m_economic_indicators r = get_economic_indicators i"
proof -
  obtain population cache1 where p:
    "get_population_data svc cache now stamp (r_population rs) i = (population, cache1)"
    by (cases "get_population_data svc cache now stamp (r_population rs) i")
  obtain area cache2 where a:
    "get_area_data svc cache1 now stamp (r_area rs) i = (area, cache2)"
    by (cases "get_area_data svc cache1 now stamp (r_area rs) i")
  obtain density cache3 where d:
    "get_density_data svc cache2 now stamp (r_density rs) i = (density, cache3)"
    by (cases "get_density_data svc cache2 now stamp (r_density rs) i")
  have c1: "cache1 = snd (get_indicator_data ''population'' svc cache now stamp (r_population rs) i)"
    using p by (simp add: get_population_data_def)
  have c2: "cache2 = snd (get_indicator_data ''area'' svc cache1 now stamp (r_area rs) i)"
    using a by (simp add: get_area_data_def)
  have m1: "cache_miss svc cache1 now ''area'' i = cache_miss svc cache now ''area'' i"
    unfolding c1 by (rule cache_miss_preserved) simp
  have m2: "cache_miss svc cache2 now ''density'' i = cache_miss svc cache now ''density'' i"
    unfolding c2 c1 by (simp add: cache_miss_preserved)
  have po: "cache_miss svc cache now ''population'' i \<Longrightarrow>
      population = (case r_population rs of Delivered x \<Rightarrow> x | _ \<Rightarrow> None)"
    using p get_indicator_data_miss [of svc cache now "''population''" i stamp "r_population rs"]
    by (simp add: get_population_data_def)
  have ar: "cache_miss svc cache now ''area'' i \<Longrightarrow>
      area = (case r_area rs of Delivered x \<Rightarrow> x | _ \<Rightarrow> None)"
    using a m1 get_indicator_data_miss [of svc cache1 now "''area''" i stamp "r_area rs"]
    by (simp add: get_area_data_def)
  have de: "cache_miss svc cache now ''density'' i \<Longrightarrow>
      density = (case r_density rs of Delivered x \<Rightarrow> x | _ \<Rightarrow> None)"
    using d m2 get_indicator_data_miss [of svc cache2 now "''density''" i stamp "r_density rs"]
    by (simp add: get_density_data_def)
  show ?thesis
    using p a d po ar de
    by (simp add: get_complete_municipality_data_def assemble_def Let_def)
qed

text \<open>
  All four calls of a request time out, on an empty cache: the request still returns
  the result dictionary, every fetched field \<^verbatim>\<open>None\<close>, and no error in it.
\<close>

theorem all_fetches_fail_counterexample:
  "get_complete_municipality_data \<lparr>cache_enabled = True\<rparr>
      \<lparr>enabled = True, redis_client = Some \<lparr>reachable = True, entries = []\<rparr>\<rparr>
      100 ''2024-07-03T00:00:00''
      \<lparr>r_basic_info = TimeoutException, r_population = TimeoutException,
       r_area = TimeoutException, r_density = TimeoutException\<rparr>
      3302205
   = (Inr \<lparr>m_municipality_id = 3302205,
           m_basic_info = None,
           m_population = None,
           m_area = None,
           m_density = None,
           m_economic_indicators = get_economic_indicators 3302205,
           m_last_updated = ''2024-07-03'',
           m_data_sources = [''IBGE - Localidades'',
                             ''IBGE - Estimativas de Popula'' @ [CHR 0xC3, CHR 0xA7, CHR 0xC3, CHR 0xA3] @ ''o'',
                             ''IBGE - Censo Demogr'' @ [CHR 0xC3, CHR 0xA1] @ ''fico 2010'']\<rparr>,
      \<lparr>enabled = True, redis_client = Some \<lparr>reachable = True, entries = []\<rparr>\<rparr>)"
  by (simp add: get_complete_municipality_data_def get_municipality_info_def
        get_population_data_def get_area_data_def get_density_data_def
        get_indicator_data_def fetch_indicator_def cache_get_def redis_get_def
        assemble_def Let_def)

text \<open>
  C4 (amended): a statistical request never aborts on a failed sub-fetch. It always
  returns the composite record; each field depends on its own fetch alone, so on a
  cache miss a failed or timed-out population fetch gives a record whose population is
  absent while the area and density that were delivered are intact. No error is
  recorded for the field (a time-out gives the same record as a provider that found
  nothing), and the request returns the record, not an aggregate failure, also when
  every sub-fetch fails.
\<close>

theorem composite_record_partial_failure:
  "(\<exists>r cache'. get_complete_municipality_data svc cache now stamp rs i = (Inr r, cache')
     \<and> m_municipality_id r = i
     \<and> m_basic_info r = (case r_basic_info rs of Delivered info \<Rightarrow> Some info | _ \<Rightarrow> None)
     \<and> (cache_miss svc cache now ''population'' i \<longrightarrow>
          m_population r = (case r_population rs of Delivered x \<Rightarrow> x | _ \<Rightarrow> None))
     \<and> (cache_miss svc cache now ''area'' i \<longrightarrow>
          m_area r = (case r_area rs of Delivered x \<Rightarrow> x | _ \<Rightarrow> None))
     \<and> (cache_miss svc cache now ''density'' i \<longrightarrow>
          m_density r = (case r_density rs of Delivered x \<Rightarrow> x | _ \<Rightarrow> None))
     \<and> m_economic_indicators r = get_economic_indicators i)
   \<and> get_complete_municipality_data svc cache now stamp (rs\<lparr>r_population := TimeoutException\<rparr>) i
       = get_complete_municipality_data svc cache now stamp (rs\<lparr>r_population := Delivered None\<rparr>) i"
proof
  have "get_municipality_info (r_basic_info rs) i
          = (case r_basic_info rs of Delivered info \<Rightarrow> Some info | _ \<Rightarrow> None)"
    by (simp add: get_municipality_info_def split: reply.splits)
  then show "\<exists>r cache'. get_complete_municipality_data svc cache now stamp rs i = (Inr r, cache')
     \<and> m_municipality_id r = i
     \<and> m_basic_info r = (case r_basic_info rs of Delivered info \<Rightarrow> Some info | _ \<Rightarrow> None)
     \<and> (cache_miss svc cache now ''population'' i \<longrightarrow>
          m_population r = (case r_population rs of Delivered x \<Rightarrow> x | _ \<Rightarrow> None))
     \<and> (cache_miss svc cache now ''area'' i \<longrightarrow>
          m_area r = (case r_area rs of Delivered x \<Rightarrow> x | _ \<Rightarrow> None))
     \<and> (cache_miss svc cache now ''density'' i \<longrightarrow>
          m_density r = (case r_density rs of Delivered x \<Rightarrow> x | _ \<Rightarrow> None))
     \<and> m_economic_indicators r = get_economic_indicators i"
    using complete_fields [of svc cache now stamp rs i] by simp
  show "get_complete_municipality_data svc cache now stamp (rs\<lparr>r_population := TimeoutException\<rparr>) i
       = get_complete_municipality_data svc cache now stamp (rs\<lparr>r_population := Delivered None\<rparr>) i"
    by (simp add: get_complete_municipality_data_def get_population_data_def
          timeout_as_not_found)
qed


text \<open>
  On an empty cache, the population call times out while the basic information, the
  area and the density are delivered.
\<close>

theorem composite_record_partial_failure_witness:
  "cache_miss \<lparr>cache_enabled = True\<rparr>
      \<lparr>enabled = True, redis_client = Some \<lparr>reachable = True, entries = []\<rparr>\<rparr>
      100 ''population'' 3302205
   \<and> cache_miss \<lparr>cache_enabled = True\<rparr>
      \<lparr>enabled = True, redis_client = Some \<lparr>reachable = True, entries = []\<rparr>\<rparr>
      100 ''area'' 3302205
   \<and> cache_miss \<lparr>cache_enabled = True\<rparr>
      \<lparr>enabled = True, redis_client = Some \<lparr>reachable = True, entries = []\<rparr>\<rparr>
      100 ''density'' 3302205
   \<and> (\<exists>r cache'.
        get_complete_municipality_data \<lparr>cache_enabled = True\<rparr>
          \<lparr>enabled = True, redis_client = Some \<lparr>reachable = True, entries = []\<rparr>\<rparr>
          100 ''2024-07-03T00:00:00''
          \<lparr>r_basic_info = Delivered [(''id'', JInt 3302205), (''nome'', JStr ''Itaperuna'')],
           r_population = TimeoutException,
           r_area = Delivered (Some [(''area_km2'', JFloat 1105.3)]),
           r_density = Delivered (Some [(''density'', JFloat 86.7)])\<rparr>
          3302205 = (Inr r, cache')
      \<and> m_basic_info r = Some [(''id'', JInt 3302205), (''nome'', JStr ''Itaperuna'')]
      \<and> m_population r = None
      \<and> m_area r = Some [(''area_km2'', JFloat 1105.3)]
      \<and> m_density r = Some [(''density'', JFloat 86.7)])"
proof -
  let ?svc = "\<lparr>cache_enabled = True\<rparr>"
  let ?c = "\<lparr>enabled = True, redis_client = Some \<lparr>reachable = True, entries = []\<rparr>\<rparr>"
  let ?rs = "\<lparr>r_basic_info = Delivered [(''id'', JInt 3302205), (''nome'', JStr ''Itaperuna'')],
           r_population = TimeoutException,
           r_area = Delivered (Some [(''area_km2'', JFloat 1105.3)]),
           r_density = Delivered (Some [(''density'', JFloat 86.7)])\<rparr>"
  have mp: "cache_miss ?svc ?c 100 ''population'' 3302205"
    and ma: "cache_miss ?svc ?c 100 ''area'' 3302205"
    and md: "cache_miss ?svc ?c 100 ''density'' 3302205"
    by (simp_all add: cache_miss_def cache_get_def redis_get_def)
  from composite_record_partial_failure [of ?svc ?c 100 "''2024-07-03T00:00:00''" ?rs 3302205]
  obtain r cache' where
      r: "get_complete_municipality_data ?svc ?c 100 ''2024-07-03T00:00:00'' ?rs 3302205
            = (Inr r, cache')"
    and b: "m_basic_info r = (case r_basic_info ?rs of Delivered info \<Rightarrow> Some info | _ \<Rightarrow> None)"
    and p: "cache_miss ?svc ?c 100 ''population'' 3302205 \<longrightarrow>
          m_population r = (case r_population ?rs of Delivered x \<Rightarrow> x | _ \<Rightarrow> None)"
    and a: "cache_miss ?svc ?c 100 ''area'' 3302205 \<longrightarrow>
          m_area r = (case r_area ?rs of Delivered x \<Rightarrow> x | _ \<Rightarrow> None)"
    and d: "cache_miss ?svc ?c 100 ''density'' 3302205 \<longrightarrow>
          m_density r = (case r_density ?rs of Delivered x \<Rightarrow> x | _ \<Rightarrow> None)"
    by blast
  have "m_basic_info r = Some [(''id'', JInt 3302205), (''nome'', JStr ''Itaperuna'')]"
    using b by simp
  moreover have "m_population r = None" using p mp by simp
  moreover have "m_area r = Some [(''area_km2'', JFloat 1105.3)]" using a ma by simp
  moreover have "m_density r = Some [(''density'', JFloat 86.7)]" using d md by simp
  ultimately show ?thesis using mp ma md r by blast
qed

section \<open>The places provider\<close>

lemma request_list_handled:
  "has_key svc \<Longrightarrow> handled_error t \<Longrightarrow> request_list svc t = Inr []"
  by (auto simp: request_list_def make_request_def handled_error_def
        split: transport.splits body.splits)

lemma request_first_handled:
  "has_key svc \<Longrightarrow> handled_error t \<Longrightarrow> request_first svc t = Inr None"
  by (auto simp: request_first_def make_request_def handled_error_def
        split: transport.splits body.splits)

lemma request_list_escaping:
  "has_key svc \<Longrightarrow> escaping_error t = Some x \<Longrightarrow> request_list svc t = Inl x"
  by (auto simp: request_list_def make_request_def escaping_error_def
        split: transport.splits body.splits)

lemma request_first_escaping:
  "has_key svc \<Longrightarrow> escaping_error t = Some x \<Longrightarrow> request_first svc t = Inl x"
  by (auto simp: request_first_def make_request_def escaping_error_def
        split: transport.splits body.splits)

lemma mock_search_results:
  "map (mock_search_result query) [0 ..< min 5 3]
     = [mock_search_result query 0, mock_search_result query 1, mock_search_result query 2]"
proof -
  have "[0 ..< min 5 3] = [0, 1, 2]" by (simp add: upt_rec)
  then show ?thesis by simp
qed

lemma indicator_failure:
  assumes "cache_miss svc cache now key_type i" and "\<forall>x. reply \<noteq> Delivered (Some x)"
  shows "fst (get_indicator_data key_type svc cache now stamp reply i) = None"
  using assms
  by (auto simp: get_indicator_data_def fetch_indicator_def cache_miss_def Let_def
        split: option.splits reply.splits)

text \<open>
  Without an API key, a nearby search around \<open>(-23.5505, -46.6333)\<close> returns the two
  mock places and geocoding returns the mock address, whatever the provider would
  have answered. With a key, the total time-out of the session and a non-object body
  sent with status 500 are not caught: the call raises.
\<close>

theorem missing_key_mock_counterexample:
  "get_nearby_places \<lparr>api_key = None\<rparr> (-23.5505) (-46.6333) None 1000 None
      (ClientError ''unreachable'')
     = Inr [\<lparr>pl_place_id = Some ''mock_hospital_1'',
             pl_name = Some ''Hospital Mock'',
             pl_formatted_address = None,
             pl_types = Some [''hospital'', ''health''],
             pl_lat = Some (Number (-23.5495)),
             pl_lng = Some (Number (-46.6323)),
             pl_rating = Some 4.2,
             pl_vicinity = Some ''Rua Mock, 123''\<rparr>,
            \<lparr>pl_place_id = Some ''mock_school_1'',
             pl_name = Some ''Escola Mock'',
             pl_formatted_address = None,
             pl_types = Some [''school'', ''education''],
             pl_lat = Some (Number (-23.5515)),
             pl_lng = Some (Number (-46.6343)),
             pl_rating = Some 4.5,
             pl_vicinity = Some ''Avenida Mock, 456''\<rparr>]
   \<and> geocode_address \<lparr>api_key = Some []\<rparr> ''Rua A'' (ClientError ''unreachable'')
     = Inr (Some \<lparr>g_place_id = ''mock_place_id'',
                  g_formatted_address = ''Mock result for: Rua A'',
                  g_location = (-23.5505, -46.6333),
                  g_address_components =
                    [(''S'' @ [CHR 0xC3, CHR 0xA3] @ ''o Paulo'', [''locality'']),
                     (''SP'', [''administrative_area_level_1'']),
                     (''Brazil'', [''country''])]\<rparr>)
   \<and> get_nearby_places \<lparr>api_key = Some ''AIzaKey''\<rparr> (-23.5505) (-46.6333) None 1000 None
      TotalTimeout
     = Inl AsyncioTimeoutError
   \<and> geocode_address \<lparr>api_key = Some ''AIzaKey''\<rparr> ''Rua A'' (Response 500 JsonOther)
     = Inl AttributeError"
  by (simp add: get_nearby_places_def geocode_address_def has_key_def mock_places_def
        mock_geocode_def mock_address_components_def request_list_def request_first_def
        make_request_def)

text \<open>
  C5 (amended): for every Source Gateway adapter operation (the nearby search, the
  text search, the geocoding and the reverse geocoding of the places provider, and
  the statistic fetches):
  \<^item> missing credentials never throw, but the places operations then return their
    fixed mock data by design, not an unavailable or empty result (the statistic
    fetches use no credentials);
  \<^item> with credentials, a provider error that reaches the adapter as a client error,
    as a JSON object with a status code other than 200, or as a JSON object whose
    status is not \<^verbatim>\<open>OK\<close>, gives the empty result, \<open>[]\<close> or \<open>None\<close>, the same as no
    data found;
  \<^item> with credentials, the total time-out of the session, a body that does not
    parse and a body that is not a JSON object are not caught: the call raises;
  \<^item> a statistic fetch that finds nothing in the cache returns \<open>None\<close> on every
    provider failure.
\<close>

theorem places_unavailable_or_mock:
  "(\<not> has_key svc \<longrightarrow>
       get_nearby_places svc latitude longitude None radius keyword t
         = Inr (mock_places latitude longitude)
     \<and> (\<forall>ty. ty \<noteq> [] \<longrightarrow>
          get_nearby_places svc latitude longitude (Some ty) radius keyword t
            = Inr (filter (\<lambda>p. ty \<in> set (case pl_types p of Some ts \<Rightarrow> ts | None \<Rightarrow> []))
                     (mock_places latitude longitude)))
     \<and> search_places svc query location radius t
         = Inr [mock_search_result query 0, mock_search_result query 1,
                mock_search_result query 2]
     \<and> geocode_address svc address t' = Inr (Some (mock_geocode address))
     \<and> reverse_geocode fmt svc latitude longitude t'
         = Inr (Some (mock_reverse_geocode fmt latitude longitude)))
   \<and> (has_key svc \<and> handled_error t \<longrightarrow>
       get_nearby_places svc latitude longitude place_type radius keyword t = Inr []
     \<and> search_places svc query location radius t = Inr [])
   \<and> (has_key svc \<and> handled_error t' \<longrightarrow>
       geocode_address svc address t' = Inr None
     \<and> reverse_geocode fmt svc latitude longitude t' = Inr None)
   \<and> (has_key svc \<and> escaping_error t = Some x \<longrightarrow>
       get_nearby_places svc latitude longitude place_type radius keyword t = Inl x
     \<and> search_places svc query location radius t = Inl x)
   \<and> (has_key svc \<and> escaping_error t' = Some x' \<longrightarrow>
       geocode_address svc address t' = Inl x'
     \<and> reverse_geocode fmt svc latitude longitude t' = Inl x')
   \<and> (cache_miss isvc cache now key_type municipality_id
        \<and> (\<forall>v. reply \<noteq> Delivered (Some v)) \<longrightarrow>
       fst (get_indicator_data key_type isvc cache now stamp reply municipality_id) = None)
   \<and> ((\<forall>v. info_reply \<noteq> Delivered v) \<longrightarrow>
       get_municipality_info info_reply municipality_id = None)"
proof (intro conjI impI)
  assume n: "\<not> has_key svc"
  show "get_nearby_places svc latitude longitude None radius keyword t
         = Inr (mock_places latitude longitude)"
    using n by (simp add: get_nearby_places_def)
  show "\<forall>ty. ty \<noteq> [] \<longrightarrow>
          get_nearby_places svc latitude longitude (Some ty) radius keyword t
            = Inr (filter (\<lambda>p. ty \<in> set (case pl_types p of Some ts \<Rightarrow> ts | None \<Rightarrow> []))
                     (mock_places latitude longitude))"
    using n by (simp add: get_nearby_places_def)
  show "search_places svc query location radius t
         = Inr [mock_search_result query 0, mock_search_result query 1,
                mock_search_result query 2]"
    using n unfolding search_places_def mock_search_results by simp
  show "geocode_address svc address t' = Inr (Some (mock_geocode address))"
    using n by (simp add: geocode_address_def)
  show "reverse_geocode fmt svc latitude longitude t'
         = Inr (Some (mock_reverse_geocode fmt latitude longitude))"
    using n by (simp add: reverse_geocode_def)
next
  assume "has_key svc \<and> handled_error t"
  then have r: "request_list svc t = Inr []" and k: "has_key svc"
    by (simp_all add: request_list_handled)
  show "get_nearby_places svc latitude longitude place_type radius keyword t = Inr []"
    using k r by (simp add: get_nearby_places_def)
  show "search_places svc query location radius t = Inr []"
    using k r by (simp add: search_places_def)
next
  assume "has_key svc \<and> handled_error t'"
  then have r: "request_first svc t' = Inr None" and k: "has_key svc"
    by (simp_all add: request_first_handled)
  show "geocode_address svc address t' = Inr None"
    using k r by (simp add: geocode_address_def)
  show "reverse_geocode fmt svc latitude longitude t' = Inr None"
    using k r by (simp add: reverse_geocode_def)
next
  assume "has_key svc \<and> escaping_error t = Some x"
  then have r: "request_list svc t = Inl x" and k: "has_key svc"
    by (simp_all add: request_list_escaping)
  show "get_nearby_places svc latitude longitude place_type radius keyword t = Inl x"
    using k r by (simp add: get_nearby_places_def)
  show "search_places svc query location radius t = Inl x"
    using k r by (simp add: search_places_def)
next
  assume "has_key svc \<and> escaping_error t' = Some x'"
  then have r: "request_first svc t' = Inl x'" and k: "has_key svc"
    by (simp_all add: request_first_escaping)
  show "geocode_address svc address t' = Inl x'"
    using k r by (simp add: geocode_address_def)
  show "reverse_geocode fmt svc latitude longitude t' = Inl x'"
    using k r by (simp add: reverse_geocode_def)
next
  assume "cache_miss isvc cache now key_type municipality_id
        \<and> (\<forall>v. reply \<noteq> Delivered (Some v))"
  then show "fst (get_indicator_data key_type isvc cache now stamp reply municipality_id) = None"
    by (simp add: indicator_failure)
next
  assume "\<forall>v. info_reply \<noteq> Delivered v"
  then show "get_municipality_info info_reply municipality_id = None"
    by (cases info_reply) (simp_all add: get_municipality_info_def)
qed

text \<open>
  Without a key the mock data comes back. With a key, a response with status 403
  and a response whose body says \<^verbatim>\<open>ZERO_RESULTS\<close> give the empty result, and the
  total time-out of the session escapes. The population fetch that times out on an
  empty cache returns \<open>None\<close>.
\<close>

theorem places_unavailable_or_mock_witness:
  "\<not> has_key \<lparr>api_key = None\<rparr>
   \<and> get_nearby_places \<lparr>api_key = None\<rparr> (-23.5505) (-46.6333) None 1000 None TotalTimeout
       = Inr (mock_places (-23.5505) (-46.6333))
   \<and> geocode_address \<lparr>api_key = None\<rparr> ''Rua A'' TotalTimeout
       = Inr (Some (mock_geocode ''Rua A''))
   \<and> has_key \<lparr>api_key = Some ''AIzaKey''\<rparr>
   \<and> handled_error (Response 403
        (JsonObject \<lparr>b_status = None, b_results = (None :: place list option),
                     b_error_message = Some ''denied''\<rparr>))
   \<and> handled_error (Response 200
        (JsonObject \<lparr>b_status = Some ''ZERO_RESULTS'',
                     b_results = (Some [] :: geocode_result list option),
                     b_error_message = None\<rparr>))
   \<and> get_nearby_places \<lparr>api_key = Some ''AIzaKey''\<rparr> (-23.5505) (-46.6333) (Some ''hospital'')
        1000 None
        (Response 403
           (JsonObject \<lparr>b_status = None, b_results = None, b_error_message = Some ''denied''\<rparr>))
       = Inr []
   \<and> geocode_address \<lparr>api_key = Some ''AIzaKey''\<rparr> ''Rua A''
        (Response 200
           (JsonObject \<lparr>b_status = Some ''ZERO_RESULTS'', b_results = Some [],
                        b_error_message = None\<rparr>))
       = Inr None
   \<and> escaping_error (TotalTimeout :: place transport) = Some AsyncioTimeoutError
   \<and> escaping_error (UndecodableBody :: geocode_result transport) = Some JSONDecodeError
   \<and> search_places \<lparr>api_key = Some ''AIzaKey''\<rparr> ''padaria'' None 50000 TotalTimeout
       = Inl AsyncioTimeoutError
   \<and> reverse_geocode (\<lambda>x. []) \<lparr>api_key = Some ''AIzaKey''\<rparr> (-23.5505) (-46.6333) UndecodableBody
       = Inl JSONDecodeError
   \<and> cache_miss \<lparr>cache_enabled = True\<rparr>
        \<lparr>enabled = True, redis_client = Some \<lparr>reachable = True, entries = []\<rparr>\<rparr>
        100 ''population'' 3302205
   \<and> fst (get_indicator_data ''population'' \<lparr>cache_enabled = True\<rparr>
        \<lparr>enabled = True, redis_client = Some \<lparr>reachable = True, entries = []\<rparr>\<rparr>
        100 ''2024-07-03T00:00:00'' TimeoutException 3302205) = None
   \<and> get_municipality_info (HTTPStatusError 404) 3302205 = None"
proof -
  let ?n = "\<lparr>api_key = None\<rparr>"
  let ?k = "\<lparr>api_key = Some ''AIzaKey''\<rparr>"
  let ?t = "Response 403
        (JsonObject \<lparr>b_status = None, b_results = (None :: place list option),
                     b_error_message = Some ''denied''\<rparr>)"
  let ?t' = "Response 200
        (JsonObject \<lparr>b_status = Some ''ZERO_RESULTS'',
                     b_results = (Some [] :: geocode_result list option),
                     b_error_message = None\<rparr>)"
  let ?i = "\<lparr>cache_enabled = True\<rparr>"
  let ?c = "\<lparr>enabled = True, redis_client = Some \<lparr>reachable = True, entries = []\<rparr>\<rparr>"
  have n: "\<not> has_key ?n" and k: "has_key ?k"
    by (simp_all add: has_key_def)
  have e: "handled_error ?t" and e': "handled_error ?t'"
    by (simp_all add: handled_error_def)
  have x: "escaping_error (TotalTimeout :: place transport) = Some AsyncioTimeoutError"
    and x': "escaping_error (UndecodableBody :: geocode_result transport) = Some JSONDecodeError"
    by (simp_all add: escaping_error_def)
  have m: "cache_miss ?i ?c 100 ''population'' 3302205"
    by (simp add: cache_miss_def cache_get_def redis_get_def)
  have r: "\<forall>v. (TimeoutException :: payload option reply) \<noteq> Delivered (Some v)"
    and r': "\<forall>v. (HTTPStatusError 404 :: payload reply) \<noteq> Delivered v"
    by simp_all
  note N = places_unavailable_or_mock
    [of ?n "-23.5505" "-46.6333" 1000 None TotalTimeout "''padaria''" None "''Rua A''"
        TotalTimeout "\<lambda>x. []" None AsyncioTimeoutError JSONDecodeError
        ?i ?c 100 "''population''" 3302205 TimeoutException "''2024-07-03T00:00:00''"
        "HTTPStatusError 404"]
  note H = places_unavailable_or_mock
    [of ?k "-23.5505" "-46.6333" 1000 None ?t "''padaria''" None "''Rua A''"
        ?t' "\<lambda>x. []" "Some ''hospital''" AsyncioTimeoutError JSONDecodeError
        ?i ?c 100 "''population''" 3302205 TimeoutException "''2024-07-03T00:00:00''"
        "HTTPStatusError 404"]
  note X = places_unavailable_or_mock
    [of ?k "-23.5505" "-46.6333" 50000 None TotalTimeout "''padaria''" None "''Rua A''"
        UndecodableBody "\<lambda>x. []" None AsyncioTimeoutError JSONDecodeError
        ?i ?c 100 "''population''" 3302205 TimeoutException "''2024-07-03T00:00:00''"
        "HTTPStatusError 404"]
  have 1: "get_nearby_places ?n (-23.5505) (-46.6333) None 1000 None TotalTimeout
       = Inr (mock_places (-23.5505) (-46.6333))"
    using N n by blast
  have 2: "geocode_address ?n ''Rua A'' TotalTimeout = Inr (Some (mock_geocode ''Rua A''))"
    using N n by blast
  have 3: "get_nearby_places ?k (-23.5505) (-46.6333) (Some ''hospital'') 1000 None ?t = Inr []"
    using H k e by blast
  have 4: "geocode_address ?k ''Rua A'' ?t' = Inr None"
    using H k e' by blast
  have 5: "search_places ?k ''padaria'' None 50000 TotalTimeout = Inl AsyncioTimeoutError"
    using X k x by blast
  have 6: "reverse_geocode (\<lambda>x. []) ?k (-23.5505) (-46.6333) UndecodableBody = Inl JSONDecodeError"
    using X k x' by blast
  have 7: "fst (get_indicator_data ''population'' ?i ?c 100 ''2024-07-03T00:00:00''
             TimeoutException 3302205) = None"
    using N m r by blast
  have 8: "get_municipality_info (HTTPStatusError 404) 3302205 = None"
    using N r' by blast
  from n 1 2 k e e' 3 4 x x' 5 6 m 7 8 show ?thesis by (intro conjI)
qed

section \<open>Cache warm-up\<close>

lemma warm_up_loop_stats:
  "warm_up_loop load ids [(''processed'', p), (''cached'', c), (''errors'', e)]
     = [(''processed'', p + length (filter load ids)),
        (''cached'', c + length (filter load ids)),
        (''errors'', e + length (filter (\<lambda>i. \<not> load i) ids))]"
  by (induction ids arbitrary: p c e) (auto simp: incr_def)

text \<open>
  A warm-up request with the 75 ids 1 to 75, every load succeeding: the statistics
  count 50 processed and have no entry for the 25 ids left out; the message speaks of
  75 municipalities.
\<close>

theorem warm_up_no_skipped_counterexample:
  "warm_up_cache (\<lambda>i. True) (map int [1..<76]) =
     \<lparr>w_status = ''completed'',
      w_statistics = [(''processed'', 50), (''cached'', 50), (''errors'', 0)],
      w_message = ''Warm-up conclu'' @ [CHR 0xC3, CHR 0xAD] @ ''do para 75 munic'' @ [CHR 0xC3, CHR 0xAD] @ ''pios''\<rparr>
   \<and> map_of (w_statistics (warm_up_cache (\<lambda>i. True) (map int [1..<76]))) ''skipped'' = None"
  by (simp add: warm_up_cache_def warm_up_loop_stats str_eval)

text \<open>
  C9 (amended): a warm-up request processes only its first 50 ids. The ids beyond
  the first 50 are dropped without a trace in the statistics: they are counted neither
  as processed, nor as cached, nor as errors, and the result has no entry that reports
  them as skipped; its message gives the number of ids of the whole request.
\<close>

theorem warm_up_first_fifty:
  "w_statistics (warm_up_cache load ids) =
      [(''processed'', length (filter load (take 50 ids))),
       (''cached'', length (filter load (take 50 ids))),
       (''errors'', length (filter (\<lambda>i. \<not> load i) (take 50 ids)))]
   \<and> length (filter load (take 50 ids)) + length (filter (\<lambda>i. \<not> load i) (take 50 ids))
       = min 50 (length ids)
   \<and> w_statistics (warm_up_cache load ids) = w_statistics (warm_up_cache load (take 50 ids))
   \<and> map_of (w_statistics (warm_up_cache load ids)) ''skipped'' = None
   \<and> w_status (warm_up_cache load ids) = ''completed''
   \<and> w_message (warm_up_cache load ids) = (''Warm-up conclu'' @ [CHR 0xC3, CHR 0xAD] @ ''do para '') @ str_nat (length ids) @ ('' munic'' @ [CHR 0xC3, CHR 0xAD] @ ''pios'')"
proof -
  have "length (filter load (take 50 ids)) + length (filter (\<lambda>i. \<not> load i) (take 50 ids))
          = length (take 50 ids)"
    by (rule sum_length_filter_compl)
  then show ?thesis
    by (simp add: warm_up_cache_def warm_up_loop_stats min_def)
qed

end
